theory Spec2Isabelle
  imports Complex_Main "HOL-Library.Word"
begin

section \<open>Python strings\<close>

text \<open>
  A Python \<open>str\<close> is modelled as a \<open>string\<close> (a list of characters with code points
  0 to 255).  The three string methods the package uses are \<open>str.split(sep)\<close> with a
  one-character separator, \<open>str.strip()\<close> and \<open>str.lower()\<close>.
\<close>

text \<open>
  \<open>s.split(sep)\<close>: the pieces of \<open>s\<close> between the occurrences of \<open>sep\<close>.  The result
  always has at least one piece, so the second branch of the inner case is never taken.
\<close>

fun py_split :: "char \<Rightarrow> string \<Rightarrow> string list" where
  "py_split sep [] = [[]]"
| "py_split sep (c # cs) =
     (if c = sep then [] # py_split sep cs
      else (case py_split sep cs of
              p # ps \<Rightarrow> (c # p) # ps
            | [] \<Rightarrow> [[c]]))"

text \<open>\<open>c.isspace()\<close> for the code points below 256.\<close>

definition py_isspace :: "char \<Rightarrow> bool" where
  "py_isspace c =
     (of_char c \<in> {9::nat, 10, 11, 12, 13, 28, 29, 30, 31, 32, 133, 160})"

text \<open>\<open>s.strip()\<close> removes leading and trailing whitespace.\<close>

definition py_strip :: "string \<Rightarrow> string" where
  "py_strip s = rev (dropWhile py_isspace (rev (dropWhile py_isspace s)))"

text \<open>
  \<open>c.lower()\<close> for the code points below 256: the ASCII capitals and the Latin-1
  capitals (all of \<open>0xC0..0xDE\<close> but the multiplication sign \<open>0xD7\<close>) move up by 32.
\<close>

definition py_lower_char :: "char \<Rightarrow> char" where
  "py_lower_char c =
     (let n = (of_char c :: nat) in
      if (65 \<le> n \<and> n \<le> 90) \<or> (192 \<le> n \<and> n \<le> 222 \<and> n \<noteq> 215)
      then char_of (n + 32) else c)"

definition py_lower :: "string \<Rightarrow> string" where
  "py_lower s = map py_lower_char s"

section \<open>Domain models\<close>

text \<open>
  The dataclasses of \<open>models/domain_models.py\<close>.  A \<open>datetime\<close> is modelled by its POSIX
  time stamp and a \<open>float\<close> by a real number.  Field names are those of the source;
  where two dataclasses share a field name the later record prefixes it.
\<close>

type_synonym datetime = int

text \<open>
  An integer held by a field declared \<open>int\<close> is either a plain Python \<open>int\<close> or a
  fixed-width numpy integer (an instance of \<open>np.integer\<close>); \<open>x.item()\<close> turns the
  latter into the plain \<open>int\<close> of the same value.
\<close>

datatype np_integer =
    NpInt32 "32 word"
  | NpInt64 "64 word"
  | NpUInt32 "32 word"
  | NpUInt64 "64 word"

fun item :: "np_integer \<Rightarrow> int" where
  "item (NpInt32 w) = sint w"
| "item (NpInt64 w) = sint w"
| "item (NpUInt32 w) = uint w"
| "item (NpUInt64 w) = uint w"

datatype py_int = PyInt int | NpInteger np_integer

fun int_value :: "py_int \<Rightarrow> int" where
  "int_value (PyInt n) = n"
| "int_value (NpInteger x) = item x"

record file_change =
  pr_number :: int
  fc_repository_full_name :: string
  filename :: string
  changes :: int
  fc_additions :: int
  fc_deletions :: int
  status :: string
  patch :: "string option"
  file_extension :: string
  fc_id :: "int option"

text \<open>\<open>FileChange._calculate_file_extension\<close>.\<close>

definition calculate_file_extension :: "string \<Rightarrow> string" where
  "calculate_file_extension fname =
     (if CHR ''.'' \<in> set fname then py_lower (last (py_split CHR ''.'' fname)) else [])"

text \<open>
  The constructor of \<open>FileChange\<close> followed by \<open>__post_init__\<close>: \<open>file_extension\<close> is
  an optional argument (default \<open>None\<close>), and a \<open>None\<close> is replaced by the computed
  extension, so the field of a constructed object always holds a string.
\<close>

definition FileChange ::
  "int \<Rightarrow> string \<Rightarrow> string \<Rightarrow> int \<Rightarrow> int \<Rightarrow> int \<Rightarrow> string \<Rightarrow> string option \<Rightarrow>
   string option \<Rightarrow> int option \<Rightarrow> file_change" where
  "FileChange pn rfn fname ch ad de st pa ext i =
     \<lparr> pr_number = pn, fc_repository_full_name = rfn, filename = fname, changes = ch,
       fc_additions = ad, fc_deletions = de, status = st, patch = pa,
       file_extension = (case ext of None \<Rightarrow> calculate_file_extension fname | Some e \<Rightarrow> e),
       fc_id = i \<rparr>"

record issue =
  iss_number :: int
  iss_pr_number :: int
  iss_repository_full_name :: string
  iss_title :: string
  iss_created_at :: "datetime option"
  iss_closed_at :: "datetime option"

record pull_request =
  number :: int
  repository_full_name :: string
  uid :: py_int
  hotkey :: string
  github_id :: string
  title :: string
  author_login :: string
  merged_at :: datetime
  created_at :: datetime
  earned_score :: real
  additions :: int
  deletions :: int
  commits :: int
  merged_by_login :: "string option"
  file_changes :: "file_change list option"
  issues :: "issue list option"

record miner =
  miner_uid :: int
  miner_hotkey :: string
  miner_github_id :: string

record miner_evaluation =
  me_uid :: int
  me_hotkey :: string
  me_github_id :: "string option"
  me_github_pat :: "string option"
  me_id :: "int option"
  total_score :: real
  total_lines_changed :: int
  total_open_prs :: int
  unique_repos_count :: int
  failed_reason :: "string option"
  evaluation_timestamp :: "datetime option"
  pull_requests :: "pull_request list"
  unique_repos_contributed_to :: "string set"
  stored_total_prs :: "int option"

text \<open>The property \<open>MinerEvaluation.total_prs\<close>.\<close>

definition total_prs :: "miner_evaluation \<Rightarrow> int" where
  "total_prs e =
     (case stored_total_prs e of Some n \<Rightarrow> n | None \<Rightarrow> int (length (pull_requests e)))"

section \<open>The connection handle\<close>

text \<open>
  The connection is the external collaborator.  Its state is the committed content of the
  storage, the content as the open transaction sees it, and the sequence of calls made on
  the handle and on its cursors.  The content type \<open>'st\<close> is left open.  What a statement
  does to the content is a parameter of every operation that executes one: it gives
  either the new content or the message of the exception the execution raises (\<open>Inl\<close>).
  A statement that raises leaves the content of the transaction as it was.  The calls
  \<open>cursor()\<close>, \<open>commit()\<close>, \<open>rollback()\<close> and \<open>close()\<close> themselves are taken to succeed.
  The records written to the logger are kept in the same state.
\<close>

datatype py_val = VNone | VInt py_int | VFloat real | VStr string | VDatetime datetime

datatype db_call =
    Cursor
  | Execute string "py_val list"
  | ExecuteValues string "py_val list list" nat
  | CursorClose
  | Commit
  | Rollback

datatype log_level = INFO | ERROR

record 'st session =
  committed :: 'st
  working :: 'st
  calls :: "db_call list"
  log_records :: "(log_level \<times> string) list"

type_synonym 'st execute = "string \<Rightarrow> py_val list \<Rightarrow> 'st \<Rightarrow> string + 'st"

type_synonym 'st execute_values = "string \<Rightarrow> py_val list list \<Rightarrow> 'st \<Rightarrow> string + 'st"

text \<open>The outcome of a call: it returns a value or raises an exception.\<close>

datatype 'a outcome = Returns 'a | Raises string

definition call :: "db_call \<Rightarrow> 'st session \<Rightarrow> 'st session" where
  "call c s = s\<lparr>calls := calls s @ [c]\<rparr>"

definition commit :: "'st session \<Rightarrow> 'st session" where
  "commit s = call Commit (s\<lparr>committed := working s\<rparr>)"

definition rollback :: "'st session \<Rightarrow> 'st session" where
  "rollback s = call Rollback (s\<lparr>working := committed s\<rparr>)"

definition logger_error :: "string \<Rightarrow> 'st session \<Rightarrow> 'st session" where
  "logger_error msg s = s\<lparr>log_records := log_records s @ [(ERROR, msg)]\<rparr>"

definition logger_info :: "string \<Rightarrow> 'st session \<Rightarrow> 'st session" where
  "logger_info msg s = s\<lparr>log_records := log_records s @ [(INFO, msg)]\<rparr>"

text \<open>
  \<open>cursor.execute(query, params)\<close>: the call is made on the handle; it either changes
  the content of the transaction or raises (the first component is then the message).
\<close>

definition cursor_execute ::
  "'st execute \<Rightarrow> string \<Rightarrow> py_val list \<Rightarrow> 'st session \<Rightarrow> string option \<times> 'st session" where
  "cursor_execute exec query params s =
     (case exec query params (working s) of
        Inl e \<Rightarrow> (Some e, call (Execute query params) s)
      | Inr w \<Rightarrow> (None, call (Execute query params) (s\<lparr>working := w\<rparr>)))"

text \<open>
  \<open>execute_values(cursor, query, values, template=None, page_size=100)\<close> of
  \<open>psycopg2.extras\<close>, which is not part of the package: what it does to the content is
  a parameter as well.
\<close>

definition cursor_execute_values ::
  "'st execute_values \<Rightarrow> string \<Rightarrow> py_val list list \<Rightarrow> 'st session \<Rightarrow>
   string option \<times> 'st session" where
  "cursor_execute_values exec_values query vals s =
     (case exec_values query vals (working s) of
        Inl e \<Rightarrow> (Some e, call (ExecuteValues query vals 100) s)
      | Inr w \<Rightarrow> (None, call (ExecuteValues query vals 100) (s\<lparr>working := w\<rparr>)))"

text \<open>The number of rows handed to storage by the bulk calls of a call sequence.\<close>

fun rows_of_call :: "db_call \<Rightarrow> nat" where
  "rows_of_call (ExecuteValues query vals page_size) = length vals"
| "rows_of_call c = 0"

definition rows_submitted :: "db_call list \<Rightarrow> nat" where
  "rows_submitted cs = sum_list (map rows_of_call cs)"

section \<open>The query catalog\<close>

text \<open>The statement templates of \<open>queries/queries.py\<close> that the operations below use.\<close>

definition SET_PULL_REQUEST :: string where
  "SET_PULL_REQUEST =
     ''\<newline>'' @
     ''INSERT INTO pull_requests (\<newline>'' @
     ''    number, repository_full_name, uid, hotkey, github_id, earned_score,\<newline>'' @
     ''    title, merged_at, pr_created_at, additions, deletions, commits,\<newline>'' @
     ''    author_login, merged_by_login\<newline>'' @
     '') VALUES (%s, %s, %s, %s, %s, %s, %s, %s, %s, %s, %s, %s, %s, %s)\<newline>'' @
     ''ON CONFLICT (number, repository_full_name)\<newline>'' @
     ''DO NOTHING\<newline>''"

definition GET_PULL_REQUEST_WITH_FILE_CHANGES :: string where
  "GET_PULL_REQUEST_WITH_FILE_CHANGES =
     ''\<newline>'' @
     ''SELECT pr.number, pr.repository_full_name, pr.uid, pr.hotkey, pr.github_id,\<newline>'' @
     ''       pr.earned_score, pr.title, pr.merged_at, pr.pr_created_at,\<newline>'' @
     ''       pr.additions, pr.deletions, pr.commits, pr.author_login,\<newline>'' @
     ''       pr.merged_by_login, r.name, r.owner,\<newline>'' @
     ''       fc.filename, fc.changes, fc.additions as file_additions,\<newline>'' @
     ''       fc.deletions as file_deletions, fc.status, fc.patch, fc.file_extension\<newline>'' @
     ''FROM pull_requests pr\<newline>'' @
     ''JOIN repositories r ON pr.repository_full_name = r.full_name\<newline>'' @
     ''LEFT JOIN file_changes fc ON pr.number = fc.pr_number AND pr.repository_full_name = fc.repository_full_name\<newline>'' @
     ''WHERE pr.number = %s AND pr.repository_full_name = %s\<newline>''"

definition BULK_UPSERT_MINERS :: string where
  "BULK_UPSERT_MINERS =
     ''\<newline>'' @
     ''INSERT INTO miners (uid, hotkey, github_id)\<newline>'' @
     ''VALUES %s\<newline>'' @
     ''ON CONFLICT (uid, hotkey, github_id)\<newline>'' @
     ''DO UPDATE SET\<newline>'' @
     ''    updated_at = CURRENT_TIMESTAMP AT TIME ZONE 'America/Chicago'\<newline>''"

definition BULK_UPSERT_REPOSITORIES :: string where
  "BULK_UPSERT_REPOSITORIES =
     ''\<newline>'' @
     ''INSERT INTO repositories (full_name, name, owner)\<newline>'' @
     ''VALUES %s\<newline>'' @
     ''ON CONFLICT (full_name)\<newline>'' @
     ''DO NOTHING\<newline>''"

definition BULK_UPSERT_PULL_REQUESTS :: string where
  "BULK_UPSERT_PULL_REQUESTS =
     ''\<newline>'' @
     ''INSERT INTO pull_requests (\<newline>'' @
     ''    number, repository_full_name, uid, hotkey, github_id, earned_score,\<newline>'' @
     ''    title, merged_at, pr_created_at, additions, deletions, commits,\<newline>'' @
     ''    author_login, merged_by_login\<newline>'' @
     '') VALUES %s\<newline>'' @
     ''ON CONFLICT (number, repository_full_name)\<newline>'' @
     ''DO NOTHING\<newline>''"

definition BULK_UPSERT_ISSUES :: string where
  "BULK_UPSERT_ISSUES =
     ''\<newline>'' @
     ''INSERT INTO issues (\<newline>'' @
     ''    number, pr_number, repository_full_name, title, created_at, closed_at\<newline>'' @
     '') VALUES %s\<newline>'' @
     ''ON CONFLICT (number, repository_full_name)\<newline>'' @
     ''DO NOTHING\<newline>''"

definition BULK_UPSERT_FILE_CHANGES :: string where
  "BULK_UPSERT_FILE_CHANGES =
     ''\<newline>'' @
     ''INSERT INTO file_changes (\<newline>'' @
     ''    pr_number, repository_full_name, filename, changes, additions, deletions, status, patch, file_extension\<newline>'' @
     '') VALUES %s\<newline>'' @
     ''ON CONFLICT (pr_number, repository_full_name, filename)\<newline>'' @
     ''DO NOTHING\<newline>''"

text \<open>\<open>s.replace(old, new)\<close>.\<close>

fun py_replace :: "string \<Rightarrow> string \<Rightarrow> string \<Rightarrow> string" where
  "py_replace old new [] = (if old = [] then new else [])"
| "py_replace old new (c # cs) =
     (if old = [] then new @ c # py_replace old new cs
      else if take (length old) (c # cs) = old
      then new @ py_replace old new (drop (length old) (c # cs))
      else c # py_replace old new cs)"

section \<open>The base repository\<close>

text \<open>
  \<open>BaseRepository.execute_command\<close>.  The body of the \<open>try\<close> block runs inside
  \<open>get_cursor\<close>, whose \<open>finally\<close> closes the cursor on both exits; the \<open>except\<close> clause
  catches every exception of the body.
\<close>

definition execute_command ::
  "'st execute \<Rightarrow> string \<Rightarrow> py_val list \<Rightarrow> 'st session \<Rightarrow> bool outcome \<times> 'st session" where
  "execute_command exec query params s =
     (case cursor_execute exec query params (call Cursor s) of
        (None, s1) \<Rightarrow> (Returns True, call CursorClose (commit s1))
      | (Some e, s1) \<Rightarrow>
          (Returns False,
           logger_error (''Error executing command: '' @ e) (rollback (call CursorClose s1))))"

definition set_entity ::
  "'st execute \<Rightarrow> string \<Rightarrow> py_val list \<Rightarrow> 'st session \<Rightarrow> bool outcome \<times> 'st session" where
  "set_entity exec query params s = execute_command exec query params s"

text \<open>
  The \<open>try\<close> block shared by the \<open>store_..._bulk\<close> methods: one \<open>execute_values\<close> call
  inside \<open>get_cursor\<close>, then \<open>commit\<close> and \<open>return len(values)\<close>; on an exception
  \<open>rollback\<close>, an error record whose text starts with the method's own prefix, and
  \<open>return 0\<close>.
\<close>

definition bulk_upsert ::
  "'st execute_values \<Rightarrow> string \<Rightarrow> py_val list list \<Rightarrow> string \<Rightarrow> 'st session \<Rightarrow>
   int outcome \<times> 'st session" where
  "bulk_upsert exec_values query vals prefix s =
     (case cursor_execute_values exec_values query vals (call Cursor s) of
        (None, s1) \<Rightarrow> (Returns (int (length vals)), call CursorClose (commit s1))
      | (Some e, s1) \<Rightarrow>
          (Returns 0, logger_error (prefix @ e) (rollback (call CursorClose s1))))"

section \<open>The miners repository\<close>

text \<open>\<open>MinersRepository.store_miners_bulk\<close>.\<close>

definition miner_values :: "miner list \<Rightarrow> py_val list list" where
  "miner_values miners =
     map (\<lambda>m. [VInt (PyInt (miner_uid m)), VStr (miner_hotkey m), VStr (miner_github_id m)])
       miners"

definition store_miners_bulk ::
  "'st execute_values \<Rightarrow> miner list \<Rightarrow> 'st session \<Rightarrow> int outcome \<times> 'st session" where
  "store_miners_bulk exec_values miners s =
     (if miners = [] then (Returns 0, s)
      else
        let vals = miner_values miners
        in bulk_upsert exec_values
             (py_replace ''VALUES %s'' ''VALUES %s'' BULK_UPSERT_MINERS) vals
             ''Error in bulk miner storage: '' s)"

section \<open>The repositories repository\<close>

text \<open>
  \<open>RepositoriesRepository.store_repositories_bulk\<close>.  The argument is a Python set; it
  is given here as the list of its elements in the order the \<open>for\<close> loop visits them.
\<close>

definition repository_values :: "string list \<Rightarrow> py_val list list" where
  "repository_values repository_full_names =
     List.map_filter
       (\<lambda>full_name.
          let parts = py_split CHR ''/'' full_name
          in if length parts = 2
             then Some [VStr full_name, VStr (parts ! 1), VStr (parts ! 0)]
             else None)
       repository_full_names"

definition store_repositories_bulk ::
  "'st execute_values \<Rightarrow> string list \<Rightarrow> 'st session \<Rightarrow> int outcome \<times> 'st session" where
  "store_repositories_bulk exec_values repository_full_names s =
     (if repository_full_names = [] then (Returns 0, s)
      else
        let vals = repository_values repository_full_names
        in if vals = [] then (Returns 0, s)
           else bulk_upsert exec_values
                  (py_replace ''VALUES %s'' ''VALUES %s'' BULK_UPSERT_REPOSITORIES) vals
                  ''Error in bulk repository storage: '' s)"

section \<open>The pull requests repository\<close>

subsection \<open>Stored rows and the join query\<close>

text \<open>
  The schema scripts are not part of the sources; the columns of the three tables the
  join reads are those the statements of the catalog name.  A column is optional where
  the code treats a \<open>None\<close> (\<open>additions\<close>, \<open>deletions\<close>, \<open>merged_by_login\<close>, \<open>patch\<close>,
  \<open>file_extension\<close>).  The \<open>uid\<close> of a row is whatever integer object the row holds.
\<close>

record pull_requests_row =
  p_number :: int
  p_repository_full_name :: string
  p_uid :: py_int
  p_hotkey :: string
  p_github_id :: string
  p_earned_score :: real
  p_title :: string
  p_merged_at :: datetime
  p_pr_created_at :: datetime
  p_additions :: "int option"
  p_deletions :: "int option"
  p_commits :: int
  p_author_login :: string
  p_merged_by_login :: "string option"

record repositories_row =
  r_full_name :: string
  r_name :: string
  r_owner :: string

record file_changes_row =
  f_pr_number :: int
  f_repository_full_name :: string
  f_filename :: string
  f_changes :: int
  f_additions :: int
  f_deletions :: int
  f_status :: string
  f_patch :: "string option"
  f_file_extension :: "string option"

text \<open>
  A row of the result of \<open>GET_PULL_REQUEST_WITH_FILE_CHANGES\<close>: the columns of \<open>pr\<close>,
  those of \<open>r\<close>, and those of \<open>fc\<close>, which the left join sets to \<open>NULL\<close> all together
  when no file change matches.  The key \<open>filename\<close> of the row dictionary is
  \<open>row_filename\<close>; \<open>file_additions\<close> and \<open>file_deletions\<close> are \<open>f_additions\<close> and
  \<open>f_deletions\<close> of \<open>row_fc\<close>.
\<close>

record joined_row =
  row_pr :: pull_requests_row
  row_r :: repositories_row
  row_fc :: "file_changes_row option"

definition row_number :: "joined_row \<Rightarrow> int" where
  "row_number row = p_number (row_pr row)"

definition row_filename :: "joined_row \<Rightarrow> string option" where
  "row_filename row = map_option f_filename (row_fc row)"

text \<open>The truth value Python gives an optional string: \<open>None\<close> and \<open>''\<close> are false.\<close>

fun truthy :: "string option \<Rightarrow> bool" where
  "truthy None = False"
| "truthy (Some x) = (x \<noteq> [])"

record database =
  tbl_pull_requests :: "pull_requests_row list"
  tbl_repositories :: "repositories_row list"
  tbl_file_changes :: "file_changes_row list"

text \<open>
  The relational meaning of \<open>GET_PULL_REQUEST_WITH_FILE_CHANGES\<close> with the parameters
  \<open>(pr_number, repository_full_name)\<close>: \<open>pull_requests\<close> joined with \<open>repositories\<close> on
  the full name, left-joined with \<open>file_changes\<close> on number and full name.
\<close>

definition left_join_file_changes ::
  "database \<Rightarrow> pull_requests_row \<Rightarrow> repositories_row \<Rightarrow> joined_row list" where
  "left_join_file_changes d pr r =
     (let fcs = filter (\<lambda>fc. p_number pr = f_pr_number fc
                    \<and> p_repository_full_name pr = f_repository_full_name fc)
                  (tbl_file_changes d)
      in if fcs = [] then [\<lparr>row_pr = pr, row_r = r, row_fc = None\<rparr>]
         else map (\<lambda>fc. \<lparr>row_pr = pr, row_r = r, row_fc = Some fc\<rparr>) fcs)"

definition select_pull_request_with_file_changes ::
  "database \<Rightarrow> int \<Rightarrow> string \<Rightarrow> joined_row list" where
  "select_pull_request_with_file_changes d pr_num full_name =
     concat (map (\<lambda>pr.
        concat (map (left_join_file_changes d pr)
          (filter (\<lambda>r. p_repository_full_name pr = r_full_name r) (tbl_repositories d))))
       (filter (\<lambda>pr. p_number pr = pr_num \<and> p_repository_full_name pr = full_name)
          (tbl_pull_requests d)))"

text \<open>
  \<open>BaseRepository.execute_query\<close> has no \<open>try\<close>: what storage answers to a query is a
  parameter of the reading methods, the rows fetched or the message of the exception.
\<close>

type_synonym execute_query = "string \<Rightarrow> py_val list \<Rightarrow> string + joined_row list"

subsection \<open>Mapping rows to entities\<close>

text \<open>
  The \<open>PullRequest\<close> both mappers build from a row; \<open>file_changes\<close> and \<open>issues\<close> keep
  their default \<open>None\<close>.  \<open>row['additions'] or 0\<close> turns a \<open>None\<close> into 0.
\<close>

definition pull_request_of_row :: "joined_row \<Rightarrow> pull_request" where
  "pull_request_of_row row =
     \<lparr> number = p_number (row_pr row),
       repository_full_name = p_repository_full_name (row_pr row),
       uid = p_uid (row_pr row),
       hotkey = p_hotkey (row_pr row),
       github_id = p_github_id (row_pr row),
       title = p_title (row_pr row),
       author_login = p_author_login (row_pr row),
       merged_at = p_merged_at (row_pr row),
       created_at = p_pr_created_at (row_pr row),
       earned_score = p_earned_score (row_pr row),
       additions = (case p_additions (row_pr row) of None \<Rightarrow> 0 | Some a \<Rightarrow> a),
       deletions = (case p_deletions (row_pr row) of None \<Rightarrow> 0 | Some a \<Rightarrow> a),
       commits = p_commits (row_pr row),
       merged_by_login = p_merged_by_login (row_pr row),
       file_changes = None,
       issues = None \<rparr>"

text \<open>\<open>PullRequestsRepository._map_to_pull_request\<close>.\<close>

definition map_to_pull_request :: "joined_row \<Rightarrow> pull_request" where
  "map_to_pull_request row = pull_request_of_row row"

text \<open>The \<open>FileChange\<close> built in the loop, for a row whose \<open>filename\<close> is true.\<close>

definition file_change_of_row :: "joined_row \<Rightarrow> file_change option" where
  "file_change_of_row row =
     (case row_fc row of
        None \<Rightarrow> None
      | Some fc \<Rightarrow>
          if truthy (row_filename row)
          then Some (FileChange (p_number (row_pr row)) (p_repository_full_name (row_pr row))
                 (f_filename fc) (f_changes fc) (f_additions fc) (f_deletions fc)
                 (f_status fc) (f_patch fc) (f_file_extension fc) None)
          else None)"

text \<open>\<open>PullRequestsRepository._map_to_pull_request_with_file_changes\<close>.\<close>

definition map_to_pull_request_with_file_changes :: "joined_row list \<Rightarrow> pull_request option" where
  "map_to_pull_request_with_file_changes rows =
     (case rows of
        [] \<Rightarrow> None
      | first_row # _ \<Rightarrow>
          let pull_request = pull_request_of_row first_row
          in if truthy (row_filename first_row)
             then Some (pull_request\<lparr>file_changes :=
                    Some (List.map_filter file_change_of_row rows)\<rparr>)
             else Some pull_request)"

subsection \<open>Reads\<close>

text \<open>\<open>PullRequestsRepository.get_pull_request_with_file_changes\<close>.\<close>

definition get_pull_request_with_file_changes ::
  "execute_query \<Rightarrow> int \<Rightarrow> string \<Rightarrow> pull_request option outcome" where
  "get_pull_request_with_file_changes execute_query pr_num full_name =
     (case execute_query GET_PULL_REQUEST_WITH_FILE_CHANGES
             [VInt (PyInt pr_num), VStr full_name] of
        Inl e \<Rightarrow> Raises e
      | Inr results \<Rightarrow> Returns (map_to_pull_request_with_file_changes results))"

text \<open>
  The dictionary \<open>pr_groups\<close> keeps its keys in insertion order: it is a list of pairs
  of a key and its rows.  One pass of the grouping loop:
\<close>

definition group_result ::
  "(int \<times> joined_row list) list \<Rightarrow> joined_row \<Rightarrow> (int \<times> joined_row list) list" where
  "group_result pr_groups result =
     (let pr_key = row_number result
      in if pr_key \<in> set (map fst pr_groups)
         then map (\<lambda>(k, rows). if k = pr_key then (k, rows @ [result]) else (k, rows)) pr_groups
         else pr_groups @ [(pr_key, [result])])"

text \<open>
  \<open>PullRequestsRepository.get_pull_requests_by_repository_with_file_changes\<close>.  A
  \<open>PullRequest\<close> object is always true, so \<open>if pr:\<close> drops a \<open>None\<close> only.
\<close>

definition get_pull_requests_by_repository_with_file_changes ::
  "execute_query \<Rightarrow> string \<Rightarrow> pull_request list outcome" where
  "get_pull_requests_by_repository_with_file_changes execute_query full_name =
     (let query = py_replace ''WHERE pr.number = %s AND pr.repository_full_name = %s''
                    ''WHERE pr.repository_full_name = %s ORDER BY pr.merged_at DESC''
                    GET_PULL_REQUEST_WITH_FILE_CHANGES
      in case execute_query query [VStr full_name] of
           Inl e \<Rightarrow> Raises e
         | Inr results \<Rightarrow>
             Returns (List.map_filter map_to_pull_request_with_file_changes
                        (map snd (foldl group_result [] results))))"

subsection \<open>Writes\<close>

text \<open>
  The object a method mutates is returned with the result.  The guard
  \<open>isinstance(pull_request.uid, np.integer)\<close> and the assignment of \<open>uid.item()\<close>:
\<close>

definition normalize_uid :: "pull_request \<Rightarrow> pull_request" where
  "normalize_uid pull_request =
     (case uid pull_request of
        NpInteger x \<Rightarrow> pull_request\<lparr>uid := PyInt (item x)\<rparr>
      | PyInt n \<Rightarrow> pull_request)"

text \<open>The parameter tuple both writes build from a pull request.\<close>

definition pull_request_params :: "pull_request \<Rightarrow> py_val list" where
  "pull_request_params pr =
     [VInt (PyInt (number pr)), VStr (repository_full_name pr), VInt (uid pr),
      VStr (hotkey pr), VStr (github_id pr), VFloat (earned_score pr), VStr (title pr),
      VDatetime (merged_at pr), VDatetime (created_at pr), VInt (PyInt (additions pr)),
      VInt (PyInt (deletions pr)), VInt (PyInt (commits pr)), VStr (author_login pr),
      (case merged_by_login pr of None \<Rightarrow> VNone | Some l \<Rightarrow> VStr l)]"

text \<open>\<open>PullRequestsRepository.set_pull_request\<close>.\<close>

definition set_pull_request ::
  "'st execute \<Rightarrow> pull_request \<Rightarrow> 'st session \<Rightarrow>
   bool outcome \<times> pull_request \<times> 'st session" where
  "set_pull_request exec pull_request s =
     (let pull_request = normalize_uid pull_request;
          (res, s') = set_entity exec SET_PULL_REQUEST (pull_request_params pull_request) s
      in (res, pull_request, s'))"

text \<open>
  \<open>PullRequestsRepository.store_pull_requests_bulk\<close>; the loop that fills \<open>values\<close>
  first normalizes each object, then appends its tuple.
\<close>

definition store_pull_requests_bulk ::
  "'st execute_values \<Rightarrow> pull_request list \<Rightarrow> 'st session \<Rightarrow>
   int outcome \<times> pull_request list \<times> 'st session" where
  "store_pull_requests_bulk exec_values prs s =
     (if prs = [] then (Returns 0, prs, s)
      else
        let prs = map normalize_uid prs;
            vals = map pull_request_params prs;
            (res, s') = bulk_upsert exec_values
                (py_replace ''VALUES %s'' ''VALUES %s'' BULK_UPSERT_PULL_REQUESTS) vals
                ''Error in bulk pull request storage: '' s
        in (res, prs, s'))"

section \<open>The issues repository\<close>

text \<open>
  \<open>IssuesRepository.store_issues_bulk\<close>; an optional \<open>datetime\<close> is bound as \<open>None\<close>
  when absent.
\<close>

definition issue_values :: "issue list \<Rightarrow> py_val list list" where
  "issue_values issue_list =
     map (\<lambda>i. [VInt (PyInt (iss_number i)), VInt (PyInt (iss_pr_number i)),
               VStr (iss_repository_full_name i), VStr (iss_title i),
               (case iss_created_at i of None \<Rightarrow> VNone | Some t \<Rightarrow> VDatetime t),
               (case iss_closed_at i of None \<Rightarrow> VNone | Some t \<Rightarrow> VDatetime t)])
       issue_list"

definition store_issues_bulk ::
  "'st execute_values \<Rightarrow> issue list \<Rightarrow> 'st session \<Rightarrow> int outcome \<times> 'st session" where
  "store_issues_bulk exec_values issue_list s =
     (if issue_list = [] then (Returns 0, s)
      else
        let vals = issue_values issue_list
        in bulk_upsert exec_values
             (py_replace ''VALUES %s'' ''VALUES %s'' BULK_UPSERT_ISSUES) vals
             ''Error in bulk issue storage: '' s)"

section \<open>The file changes repository\<close>

text \<open>
  \<open>FileChangesRepository.store_file_changes_bulk\<close>.  The last value of a tuple is
  \<open>file_change.file_extension or file_change._calculate_file_extension()\<close>: an empty
  extension is computed again from the file name.
\<close>

definition file_change_values :: "file_change list \<Rightarrow> py_val list list" where
  "file_change_values fcs =
     map (\<lambda>fc. [VInt (PyInt (pr_number fc)), VStr (fc_repository_full_name fc),
                VStr (filename fc), VInt (PyInt (changes fc)), VInt (PyInt (fc_additions fc)),
                VInt (PyInt (fc_deletions fc)), VStr (status fc),
                (case patch fc of None \<Rightarrow> VNone | Some d \<Rightarrow> VStr d),
                VStr (if file_extension fc \<noteq> [] then file_extension fc
                      else calculate_file_extension (filename fc))])
       fcs"

definition store_file_changes_bulk ::
  "'st execute_values \<Rightarrow> file_change list \<Rightarrow> 'st session \<Rightarrow> int outcome \<times> 'st session" where
  "store_file_changes_bulk exec_values fcs s =
     (if fcs = [] then (Returns 0, s)
      else
        let vals = file_change_values fcs
        in bulk_upsert exec_values
             (py_replace ''VALUES %s'' ''VALUES %s'' BULK_UPSERT_FILE_CHANGES) vals
             ''Error in bulk file change storage: '' s)"

section \<open>The migration runner\<close>


text \<open>
  \<open>read_migration_file\<close> reads a packaged resource or a file: what it finds is a
  parameter, the text of the script or the message of the exception it raises.
\<close>

type_synonym read_migration_file = "string \<Rightarrow> string + string"

text \<open>The loop over the statements of one script; it stops at the first that raises.\<close>

fun execute_statements ::
  "'st execute \<Rightarrow> string list \<Rightarrow> 'st session \<Rightarrow> string option \<times> 'st session" where
  "execute_statements exec [] s = (None, s)"
| "execute_statements exec (statement # statements) s =
     (if statement \<noteq> []
      then (case cursor_execute exec statement [] s of
              (Some e, s') \<Rightarrow> (Some e, s')
            | (None, s') \<Rightarrow> execute_statements exec statements s')
      else execute_statements exec statements s)"

text \<open>
  \<open>DatabaseMigrator.run_migration\<close>.  The cursor is opened by \<open>with\<close>, which closes it
  on both exits.
\<close>

definition run_migration ::
  "read_migration_file \<Rightarrow> 'st execute \<Rightarrow> string \<Rightarrow> 'st session \<Rightarrow>
   bool outcome \<times> 'st session" where
  "run_migration read_file exec file_name s =
     (case read_file file_name of
        Inl e \<Rightarrow>
          (Returns False,
           logger_error (''Failed to run migration '' @ file_name @ '': '' @ e) (rollback s))
      | Inr sql_content \<Rightarrow>
          let statements = map py_strip
                (filter (\<lambda>stmt. py_strip stmt \<noteq> []) (py_split CHR '';'' sql_content))
          in case execute_statements exec statements (call Cursor s) of
               (None, s1) \<Rightarrow>
                 (Returns True,
                  call CursorClose
                    (logger_info (''Successfully ran migration: '' @ file_name) (commit s1)))
             | (Some e, s1) \<Rightarrow>
                 (Returns False,
                  logger_error (''Failed to run migration '' @ file_name @ '': '' @ e)
                    (rollback (call CursorClose s1))))"



section \<open>Notions used to state the properties\<close>

text \<open>
  The distinct elements of a list in the order of their first occurrences.
\<close>

fun first_seen :: "'a list \<Rightarrow> 'a list" where
  "first_seen [] = []"
| "first_seen (x # xs) = x # first_seen (filter (\<lambda>y. y \<noteq> x) xs)"



text \<open>
  A storage that holds the tables \<open>d\<close> and answers the join query by its relational
  meaning; any other statement raises.
\<close>

definition execute_query_on :: "database \<Rightarrow> execute_query" where
  "execute_query_on d query params =
     (if query = GET_PULL_REQUEST_WITH_FILE_CHANGES
      then (case params of
              [VInt n, VStr full_name] \<Rightarrow>
                Inr (select_pull_request_with_file_changes d (int_value n) full_name)
            | _ \<Rightarrow> Inl ''wrong parameters'')
      else Inl ''statement not modelled'')"

section \<open>Concrete inputs\<close>

text \<open>
  A session over a storage whose content is a counter of the rows written, a storage
  that executes every statement, one that rejects every statement, and a few entities.
\<close>

definition example_session :: "nat session" where
  "example_session = \<lparr>committed = 0, working = 0, calls = [], log_records = []\<rparr>"

definition accepting :: "nat execute" where
  "accepting query params w = Inr (Suc w)"

definition rejecting :: "nat execute" where
  "rejecting query params w = Inl ''syntax error''"

definition accepting_values :: "nat execute_values" where
  "accepting_values query vals w = Inr (w + length vals)"

definition rejecting_values :: "nat execute_values" where
  "rejecting_values query vals w = Inl ''connection lost''"

definition example_miner :: miner where
  "example_miner = \<lparr>miner_uid = 3, miner_hotkey = ''5Fhot'', miner_github_id = ''4242''\<rparr>"

definition example_issue :: issue where
  "example_issue =
     \<lparr> iss_number = 9, iss_pr_number = 1, iss_repository_full_name = ''o/r'',
       iss_title = ''Crash'', iss_created_at = Some 50, iss_closed_at = None \<rparr>"

definition example_file_change :: file_change where
  "example_file_change = FileChange 1 ''o/r'' ''src/main.py'' 3 2 1 ''modified'' None None None"

definition example_pull_request :: pull_request where
  "example_pull_request =
     \<lparr> number = 1, repository_full_name = ''o/r'', uid = NpInteger (NpInt64 7),
       hotkey = ''5Fhot'', github_id = ''4242'', title = ''Fix'', author_login = ''dev'',
       merged_at = 200, created_at = 100, earned_score = 0, additions = 5, deletions = 2,
       commits = 1, merged_by_login = None, file_changes = None, issues = None \<rparr>"

text \<open>Tables that hold one pull request, its repository and no file change.\<close>

definition example_pull_requests_row :: pull_requests_row where
  "example_pull_requests_row =
     \<lparr> p_number = 1, p_repository_full_name = ''o/r'', p_uid = PyInt 7, p_hotkey = ''5Fhot'',
       p_github_id = ''4242'', p_earned_score = 0, p_title = ''Fix'', p_merged_at = 200,
       p_pr_created_at = 100, p_additions = Some 5, p_deletions = Some 2, p_commits = 1,
       p_author_login = ''dev'', p_merged_by_login = None \<rparr>"

definition example_database :: database where
  "example_database =
     \<lparr> tbl_pull_requests = [example_pull_requests_row],
       tbl_repositories = [\<lparr>r_full_name = ''o/r'', r_name = ''r'', r_owner = ''o''\<rparr>],
       tbl_file_changes = [] \<rparr>"

text \<open>
  Rows as the by-repository join may return them: two of pull request 2, with a row of
  pull request 1 between them.
\<close>

definition example_file_changes_row :: file_changes_row where
  "example_file_changes_row =
     \<lparr> f_pr_number = 2, f_repository_full_name = ''o/r'', f_filename = ''src/main.py'',
       f_changes = 3, f_additions = 2, f_deletions = 1, f_status = ''modified'',
       f_patch = None, f_file_extension = Some ''py'' \<rparr>"

definition example_results :: "joined_row list" where
  "example_results =
     [\<lparr> row_pr = example_pull_requests_row\<lparr>p_number := 2\<rparr>,
         row_r = \<lparr>r_full_name = ''o/r'', r_name = ''r'', r_owner = ''o''\<rparr>,
         row_fc = Some example_file_changes_row \<rparr>,
      \<lparr> row_pr = example_pull_requests_row,
         row_r = \<lparr>r_full_name = ''o/r'', r_name = ''r'', r_owner = ''o''\<rparr>,
         row_fc = None \<rparr>,
      \<lparr> row_pr = example_pull_requests_row\<lparr>p_number := 2\<rparr>,
         row_r = \<lparr>r_full_name = ''o/r'', r_name = ''r'', r_owner = ''o''\<rparr>,
         row_fc = Some (example_file_changes_row\<lparr>f_filename := ''README'',
                    f_file_extension := None\<rparr>) \<rparr>]"



section \<open>Facts about splitting\<close>

lemma py_split_not_Nil: "py_split sep s \<noteq> []"
  by (induction s) (auto split: list.splits)

lemma py_split_no_sep: "sep \<notin> set s \<Longrightarrow> py_split sep s = [s]"
  by (induction s) auto

lemma last_py_split_Cons:
  "last (py_split sep (c # cs)) =
     (if sep \<in> set cs then last (py_split sep cs) else if c = sep then cs else c # cs)"
proof (cases "sep \<in> set cs")
  case False
  then show ?thesis by (simp add: py_split_no_sep)
next
  case True
  obtain p ps where ps: "py_split sep cs = p # ps"
    using py_split_not_Nil [of sep cs] by (cases "py_split sep cs") auto
  have "ps \<noteq> []"
  proof
    assume "ps = []"
    with ps have "py_split sep cs = [p]" by simp
    moreover have "length (py_split sep cs) = Suc (length (filter (\<lambda>x. x = sep) cs))"
      by (induction cs) (auto split: list.splits simp: py_split_not_Nil)
    ultimately have "filter (\<lambda>x. x = sep) cs = []" by simp
    with True show False by (auto simp: filter_empty_conv)
  qed
  with ps True show ?thesis by simp
qed

lemma last_py_split: "last (py_split sep s) = rev (takeWhile (\<lambda>c. c \<noteq> sep) (rev s))"
proof (induction s)
  case Nil
  then show ?case by simp
next
  case (Cons c cs)
  show ?case
  proof (cases "sep \<in> set cs")
    case True
    then have "takeWhile (\<lambda>c. c \<noteq> sep) (rev cs @ [c]) = takeWhile (\<lambda>c. c \<noteq> sep) (rev cs)"
      by (intro takeWhile_append1 [where x = sep]) auto
    with True Cons show ?thesis by (simp only: last_py_split_Cons rev.simps if_True)
  next
    case False
    then have "takeWhile (\<lambda>c. c \<noteq> sep) (rev cs @ [c]) = rev cs @ takeWhile (\<lambda>c. c \<noteq> sep) [c]"
      by (intro takeWhile_append2) auto
    with False show ?thesis by (simp add: last_py_split_Cons del: py_split.simps)
  qed
qed

section \<open>Derived fields of the domain models\<close>

text \<open>
  C7.  A \<open>FileChange\<close> constructed without a file extension (the argument left at its
  default \<open>None\<close>) gets, at construction, the lower-cased part of the file name after
  its last dot, and the empty string when the file name has no dot.  The file name
  \<open>src/main.py\<close> gives \<open>py\<close> and \<open>Makefile\<close> gives the empty string.
\<close>

theorem file_extension_derived:
  "file_extension (FileChange pn rfn fname ch ad de st pa None i) =
     (if CHR ''.'' \<in> set fname
      then py_lower (rev (takeWhile (\<lambda>c. c \<noteq> CHR ''.'') (rev fname)))
      else [])
   \<and> file_extension (FileChange pn rfn ''src/main.py'' ch ad de st pa None i) = ''py''
   \<and> file_extension (FileChange pn rfn ''Makefile'' ch ad de st pa None i) = []"
  by (simp add: FileChange_def calculate_file_extension_def last_py_split
      py_lower_def py_lower_char_def)

text \<open>
  C8.  \<open>total_prs\<close> of a \<open>MinerEvaluation\<close> is \<open>stored_total_prs\<close> whenever that field is
  not \<open>None\<close>, and the length of the \<open>pull_requests\<close> list otherwise.
\<close>

theorem total_prs_stored_or_computed:
  "(\<forall>n. stored_total_prs e = Some n \<longrightarrow> total_prs e = n)
   \<and> (stored_total_prs e = None \<longrightarrow> total_prs e = int (length (pull_requests e)))"
  by (simp add: total_prs_def)

theorem total_prs_stored_or_computed_witness:
  "total_prs \<lparr> me_uid = 1, me_hotkey = ''hk'', me_github_id = None, me_github_pat = None,
       me_id = None, total_score = 0, total_lines_changed = 0, total_open_prs = 0,
       unique_repos_count = 0, failed_reason = None, evaluation_timestamp = None,
       pull_requests = [], unique_repos_contributed_to = {}, stored_total_prs = Some 7 \<rparr> = 7
   \<and> total_prs \<lparr> me_uid = 1, me_hotkey = ''hk'', me_github_id = None, me_github_pat = None,
       me_id = None, total_score = 0, total_lines_changed = 0, total_open_prs = 0,
       unique_repos_count = 0, failed_reason = None, evaluation_timestamp = None,
       pull_requests = [], unique_repos_contributed_to = {}, stored_total_prs = None \<rparr> = 0"
  using total_prs_stored_or_computed
    [of "\<lparr> me_uid = 1, me_hotkey = ''hk'', me_github_id = None, me_github_pat = None,
       me_id = None, total_score = 0, total_lines_changed = 0, total_open_prs = 0,
       unique_repos_count = 0, failed_reason = None, evaluation_timestamp = None,
       pull_requests = [], unique_repos_contributed_to = {}, stored_total_prs = Some 7 \<rparr>"]
    total_prs_stored_or_computed
    [of "\<lparr> me_uid = 1, me_hotkey = ''hk'', me_github_id = None, me_github_pat = None,
       me_id = None, total_score = 0, total_lines_changed = 0, total_open_prs = 0,
       unique_repos_count = 0, failed_reason = None, evaluation_timestamp = None,
       pull_requests = [], unique_repos_contributed_to = {}, stored_total_prs = None \<rparr>"]
  by simp

section \<open>Writes through the base repository\<close>

text \<open>
  C3.  For every statement and parameter tuple, \<open>execute_command\<close> returns a Boolean and
  never raises.  When the statement executes, the call commits its effect and returns
  true.  When the statement raises, the call rolls back to the committed content, which
  is the one from before the call, logs one error record and returns false.  On both
  exits the content of the transaction equals the committed content: no statement is
  left half committed.
\<close>

theorem execute_command_commit_or_rollback:
  "(\<forall>w. exec query params (working s) = Inr w \<longrightarrow>
      fst (execute_command exec query params s) = Returns True
      \<and> committed (snd (execute_command exec query params s)) = w
      \<and> log_records (snd (execute_command exec query params s)) = log_records s
      \<and> calls (snd (execute_command exec query params s)) =
          calls s @ [Cursor, Execute query params, Commit, CursorClose])
   \<and> (\<forall>e. exec query params (working s) = Inl e \<longrightarrow>
      fst (execute_command exec query params s) = Returns False
      \<and> committed (snd (execute_command exec query params s)) = committed s
      \<and> log_records (snd (execute_command exec query params s)) =
          log_records s @ [(ERROR, ''Error executing command: '' @ e)]
      \<and> calls (snd (execute_command exec query params s)) =
          calls s @ [Cursor, Execute query params, CursorClose, Rollback])
   \<and> fst (execute_command exec query params s) \<in> {Returns True, Returns False}
   \<and> working (snd (execute_command exec query params s)) =
       committed (snd (execute_command exec query params s))"
  by (cases "exec query params (working s)")
    (simp_all add: execute_command_def cursor_execute_def call_def commit_def rollback_def
      logger_error_def)

theorem execute_command_commit_or_rollback_witness:
  "fst (execute_command accepting ''INSERT'' [VInt (PyInt 1)] example_session) = Returns True
   \<and> committed (snd (execute_command accepting ''INSERT'' [VInt (PyInt 1)] example_session)) = 1
   \<and> working (snd (execute_command accepting ''INSERT'' [VInt (PyInt 1)] example_session)) = 1
   \<and> fst (execute_command rejecting ''INSERT'' [VInt (PyInt 1)] example_session) = Returns False
   \<and> committed (snd (execute_command rejecting ''INSERT'' [VInt (PyInt 1)] example_session)) = 0
   \<and> working (snd (execute_command rejecting ''INSERT'' [VInt (PyInt 1)] example_session)) = 0
   \<and> log_records (snd (execute_command rejecting ''INSERT'' [VInt (PyInt 1)] example_session)) =
       [(ERROR, ''Error executing command: syntax error'')]"
  using execute_command_commit_or_rollback
      [of accepting "''INSERT''" "[VInt (PyInt 1)]" example_session]
    execute_command_commit_or_rollback
      [of rejecting "''INSERT''" "[VInt (PyInt 1)]" example_session]
  by (simp add: accepting_def rejecting_def example_session_def)

section \<open>Facts about the shared blocks\<close>

lemma py_replace_same: "old \<noteq> [] \<Longrightarrow> py_replace old old s = s"
proof (induction "length s" arbitrary: s rule: less_induct)
  case less
  show ?case
  proof (cases s)
    case Nil
    with less.prems show ?thesis by simp
  next
    case (Cons c cs)
    show ?thesis
    proof (cases "take (length old) s = old")
      case True
      from less.prems Cons have "length (drop (length old) s) < length s"
        by (cases old) auto
      then have "py_replace old old (drop (length old) s) = drop (length old) s"
        using less by blast
      moreover have "py_replace old old s = old @ py_replace old old (drop (length old) s)"
        using less.prems True unfolding Cons by (subst py_replace.simps) simp
      ultimately have "py_replace old old s = take (length old) s @ drop (length old) s"
        using True by simp
      then show ?thesis by simp
    next
      case False
      have "length cs < length s" using Cons by simp
      then have "py_replace old old cs = cs" using less by blast
      with False less.prems show ?thesis unfolding Cons by simp
    qed
  qed
qed

lemma bulk_upsert_ok:
  "exec_values query vals (working s) = Inr w \<Longrightarrow>
   bulk_upsert exec_values query vals prefix s =
     (Returns (int (length vals)),
      s\<lparr>committed := w, working := w,
        calls := calls s @ [Cursor, ExecuteValues query vals 100, Commit, CursorClose]\<rparr>)"
  by (simp add: bulk_upsert_def cursor_execute_values_def call_def commit_def)

lemma bulk_upsert_fail:
  "exec_values query vals (working s) = Inl e \<Longrightarrow>
   bulk_upsert exec_values query vals prefix s =
     (Returns 0,
      s\<lparr>working := committed s,
        calls := calls s @ [Cursor, ExecuteValues query vals 100, CursorClose, Rollback],
        log_records := log_records s @ [(ERROR, prefix @ e)]\<rparr>)"
  by (simp add: bulk_upsert_def cursor_execute_values_def call_def rollback_def logger_error_def)

lemma rows_submitted_append: "rows_submitted (xs @ ys) = rows_submitted xs + rows_submitted ys"
  by (simp add: rows_submitted_def)

lemma execute_command_ok:
  "exec query params (working s) = Inr w \<Longrightarrow>
   execute_command exec query params s =
     (Returns True,
      s\<lparr>committed := w, working := w,
        calls := calls s @ [Cursor, Execute query params, Commit, CursorClose]\<rparr>)"
  by (simp add: execute_command_def cursor_execute_def call_def commit_def)

lemma execute_command_fail:
  "exec query params (working s) = Inl e \<Longrightarrow>
   execute_command exec query params s =
     (Returns False,
      s\<lparr>working := committed s,
        calls := calls s @ [Cursor, Execute query params, CursorClose, Rollback],
        log_records := log_records s @ [(ERROR, ''Error executing command: '' @ e)]\<rparr>)"
  by (simp add: execute_command_def cursor_execute_def call_def rollback_def logger_error_def)

lemma normalize_uid_eq: "normalize_uid pr = pr\<lparr>uid := PyInt (int_value (uid pr))\<rparr>"
  by (cases "uid pr") (simp_all add: normalize_uid_def)


section \<open>Writing pull requests\<close>

lemma set_pull_request_eq:
  "set_pull_request exec pr s =
     (fst (execute_command exec SET_PULL_REQUEST (pull_request_params (normalize_uid pr)) s),
      normalize_uid pr,
      snd (execute_command exec SET_PULL_REQUEST (pull_request_params (normalize_uid pr)) s))"
  by (simp add: set_pull_request_def set_entity_def Let_def split: prod.split)

lemma execute_command_calls:
  "\<exists>rest. calls (snd (execute_command exec query params s)) =
      calls s @ Cursor # Execute query params # rest"
  by (cases "exec query params (working s)")
    (simp_all add: execute_command_ok execute_command_fail)

lemma bulk_upsert_calls:
  "\<exists>rest. calls (snd (bulk_upsert exec_values query vals prefix s)) =
      calls s @ Cursor # ExecuteValues query vals 100 # rest"
  by (cases "exec_values query vals (working s)")
    (simp_all add: bulk_upsert_ok bulk_upsert_fail)

lemma store_pull_requests_bulk_eq:
  "prs \<noteq> [] \<Longrightarrow>
   store_pull_requests_bulk exec_values prs s =
     (fst (bulk_upsert exec_values BULK_UPSERT_PULL_REQUESTS
             (map pull_request_params (map normalize_uid prs))
             ''Error in bulk pull request storage: '' s),
      map normalize_uid prs,
      snd (bulk_upsert exec_values BULK_UPSERT_PULL_REQUESTS
             (map pull_request_params (map normalize_uid prs))
             ''Error in bulk pull request storage: '' s))"
  by (simp add: store_pull_requests_bulk_def py_replace_same Let_def split: prod.split)

text \<open>
  C5.  Whatever integer object the \<open>uid\<close> of a pull request is, a fixed-width numpy
  integer included, the parameter tuple \<open>set_pull_request\<close> binds to the statement and
  every row \<open>store_pull_requests_bulk\<close> hands to storage hold at the \<open>uid\<close> position
  (the third) the plain Python \<open>int\<close> of the same value.  The row-to-entity mapper
  copies the \<open>uid\<close> of the row as it is: the normalization is done by the two write
  methods, not by the mapper.
\<close>

theorem uid_normalized_before_binding:
  "(\<exists>rest. calls (snd (snd (set_pull_request exec pr s))) =
       calls s @ Cursor
         # Execute SET_PULL_REQUEST (pull_request_params (pr\<lparr>uid := PyInt (int_value (uid pr))\<rparr>))
         # rest)
   \<and> pull_request_params (pr\<lparr>uid := PyInt (int_value (uid pr))\<rparr>) ! 2 =
       VInt (PyInt (int_value (uid pr)))
   \<and> (prs \<noteq> [] \<longrightarrow>
        (\<exists>rest. calls (snd (snd (store_pull_requests_bulk exec_values prs s))) =
           calls s @ Cursor
             # ExecuteValues BULK_UPSERT_PULL_REQUESTS
                 (map (\<lambda>p. pull_request_params (p\<lparr>uid := PyInt (int_value (uid p))\<rparr>)) prs) 100
             # rest))
   \<and> uid (map_to_pull_request row) = p_uid (row_pr row)"
proof (intro conjI impI)
  show "\<exists>rest. calls (snd (snd (set_pull_request exec pr s))) =
       calls s @ Cursor
         # Execute SET_PULL_REQUEST (pull_request_params (pr\<lparr>uid := PyInt (int_value (uid pr))\<rparr>))
         # rest"
    using execute_command_calls [where s = s and exec = exec and query = SET_PULL_REQUEST
        and params = "pull_request_params (normalize_uid pr)"]
    by (simp add: set_pull_request_eq normalize_uid_eq)
  show "pull_request_params (pr\<lparr>uid := PyInt (int_value (uid pr))\<rparr>) ! 2 =
       VInt (PyInt (int_value (uid pr)))"
    by (simp add: pull_request_params_def)
  show "uid (map_to_pull_request row) = p_uid (row_pr row)"
    by (simp add: map_to_pull_request_def pull_request_of_row_def)
next
  assume ne: "prs \<noteq> []"
  have m: "map pull_request_params (map normalize_uid prs) =
      map (\<lambda>p. pull_request_params (p\<lparr>uid := PyInt (int_value (uid p))\<rparr>)) prs"
    by (simp add: normalize_uid_eq)
  show "\<exists>rest. calls (snd (snd (store_pull_requests_bulk exec_values prs s))) =
           calls s @ Cursor
             # ExecuteValues BULK_UPSERT_PULL_REQUESTS
                 (map (\<lambda>p. pull_request_params (p\<lparr>uid := PyInt (int_value (uid p))\<rparr>)) prs) 100
             # rest"
    using bulk_upsert_calls [where s = s and exec_values = exec_values
        and query = BULK_UPSERT_PULL_REQUESTS
        and vals = "map pull_request_params (map normalize_uid prs)"
        and prefix = "''Error in bulk pull request storage: ''"]
    by (simp only: store_pull_requests_bulk_eq [OF ne] snd_conv m)
qed

theorem uid_normalized_before_binding_witness:
  "(\<exists>rest. calls (snd (snd (store_pull_requests_bulk accepting_values [example_pull_request]
        example_session))) =
       Cursor # ExecuteValues BULK_UPSERT_PULL_REQUESTS
           [pull_request_params (example_pull_request\<lparr>uid := PyInt 7\<rparr>)] 100 # rest)
   \<and> pull_request_params (example_pull_request\<lparr>uid := PyInt 7\<rparr>) ! 2 = VInt (PyInt 7)"
  using uid_normalized_before_binding
    [where exec = accepting and pr = example_pull_request and s = example_session
      and prs = "[example_pull_request]" and exec_values = accepting_values]
  by (simp add: example_session_def example_pull_request_def)

text \<open>
  C9.  \<open>set_pull_request\<close> and \<open>store_pull_requests_bulk\<close> change the objects they are
  given: afterwards the \<open>uid\<close> of each is the plain \<open>int\<close> of the same value (so a
  numpy integer is overwritten), and every other field is as before.
\<close>

theorem uid_overwritten_in_place:
  "fst (snd (set_pull_request exec pr s)) = pr\<lparr>uid := PyInt (int_value (uid pr))\<rparr>
   \<and> fst (snd (store_pull_requests_bulk exec_values prs s)) =
       map (\<lambda>p. p\<lparr>uid := PyInt (int_value (uid p))\<rparr>) prs"
proof
  show "fst (snd (set_pull_request exec pr s)) = pr\<lparr>uid := PyInt (int_value (uid pr))\<rparr>"
    by (simp add: set_pull_request_eq normalize_uid_eq)
  show "fst (snd (store_pull_requests_bulk exec_values prs s)) =
       map (\<lambda>p. p\<lparr>uid := PyInt (int_value (uid p))\<rparr>) prs"
  proof (cases "prs = []")
    case True
    then show ?thesis by (simp add: store_pull_requests_bulk_def)
  next
    case False
    then show ?thesis by (simp add: store_pull_requests_bulk_eq normalize_uid_eq)
  qed
qed


theorem uid_overwritten_in_place_witness:
  "fst (snd (set_pull_request accepting example_pull_request example_session)) =
     example_pull_request\<lparr>uid := PyInt 7\<rparr>
   \<and> fst (snd (store_pull_requests_bulk rejecting_values [example_pull_request]
         example_session)) = [example_pull_request\<lparr>uid := PyInt 7\<rparr>]"
  using uid_overwritten_in_place
    [where exec = accepting and pr = example_pull_request and s = example_session
      and prs = "[example_pull_request]" and exec_values = rejecting_values]
  by (simp add: example_pull_request_def)

section \<open>Bulk storage of repository names\<close>

lemma repository_values_eq:
  "repository_values names =
     map (\<lambda>n. [VStr n, VStr (py_split CHR ''/'' n ! 1), VStr (py_split CHR ''/'' n ! 0)])
       (filter (\<lambda>n. length (py_split CHR ''/'' n) = 2) names)"
  by (induction names) (simp_all add: repository_values_def List.map_filter_simps Let_def)

lemma split_examples:
  "py_split CHR ''/'' ''owner/repo'' = [''owner'', ''repo'']"
  "py_split CHR ''/'' ''noslash'' = [''noslash'']"
  "py_split CHR ''/'' ''a/b/c'' = [''a'', ''b'', ''c'']"
  by simp_all

text \<open>
  C10.  \<open>store_repositories_bulk\<close> hands to storage exactly the rows of the names that
  split on \<open>/\<close> into two parts.  When no name does (the empty set included) it returns 0
  and leaves the session as it was: no call on the handle, no log record.  Otherwise it
  returns the number of well-formed names when storage executes the statement, with no
  log record, and 0 with one error record when the statement raises; a malformed name
  is never counted and raises nothing.
\<close>

theorem store_repositories_bulk_skips_malformed:
  "repository_values names =
     map (\<lambda>n. [VStr n, VStr (py_split CHR ''/'' n ! 1), VStr (py_split CHR ''/'' n ! 0)])
       (filter (\<lambda>n. length (py_split CHR ''/'' n) = 2) names)
   \<and> (filter (\<lambda>n. length (py_split CHR ''/'' n) = 2) names = [] \<longrightarrow>
        store_repositories_bulk exec_values names s = (Returns 0, s))
   \<and> (filter (\<lambda>n. length (py_split CHR ''/'' n) = 2) names \<noteq> [] \<longrightarrow>
        (\<forall>w. exec_values BULK_UPSERT_REPOSITORIES (repository_values names) (working s) = Inr w \<longrightarrow>
           fst (store_repositories_bulk exec_values names s) =
             Returns (int (length (filter (\<lambda>n. length (py_split CHR ''/'' n) = 2) names)))
           \<and> calls (snd (store_repositories_bulk exec_values names s)) =
               calls s @ [Cursor, ExecuteValues BULK_UPSERT_REPOSITORIES (repository_values names) 100,
                          Commit, CursorClose]
           \<and> log_records (snd (store_repositories_bulk exec_values names s)) = log_records s)
        \<and> (\<forall>e. exec_values BULK_UPSERT_REPOSITORIES (repository_values names) (working s) = Inl e \<longrightarrow>
           fst (store_repositories_bulk exec_values names s) = Returns 0
           \<and> calls (snd (store_repositories_bulk exec_values names s)) =
               calls s @ [Cursor, ExecuteValues BULK_UPSERT_REPOSITORIES (repository_values names) 100,
                          CursorClose, Rollback]
           \<and> log_records (snd (store_repositories_bulk exec_values names s)) =
               log_records s @ [(ERROR, ''Error in bulk repository storage: '' @ e)]))"
proof (intro conjI impI allI)
  show "repository_values names =
     map (\<lambda>n. [VStr n, VStr (py_split CHR ''/'' n ! 1), VStr (py_split CHR ''/'' n ! 0)])
       (filter (\<lambda>n. length (py_split CHR ''/'' n) = 2) names)"
    by (rule repository_values_eq)
next
  assume "filter (\<lambda>n. length (py_split CHR ''/'' n) = 2) names = []"
  then have "repository_values names = []" by (simp add: repository_values_eq)
  then show "store_repositories_bulk exec_values names s = (Returns 0, s)"
    by (simp add: store_repositories_bulk_def)
next
  fix w
  assume ne: "filter (\<lambda>n. length (py_split CHR ''/'' n) = 2) names \<noteq> []"
    and ok: "exec_values BULK_UPSERT_REPOSITORIES (repository_values names) (working s) = Inr w"
  from ne have v: "repository_values names \<noteq> []" and n: "names \<noteq> []"
    by (auto simp: repository_values_eq)
  have r: "store_repositories_bulk exec_values names s =
      bulk_upsert exec_values BULK_UPSERT_REPOSITORIES (repository_values names)
        ''Error in bulk repository storage: '' s"
    using v n by (simp add: store_repositories_bulk_def py_replace_same)
  show "fst (store_repositories_bulk exec_values names s) =
      Returns (int (length (filter (\<lambda>n. length (py_split CHR ''/'' n) = 2) names)))"
    using ok by (simp add: r bulk_upsert_ok) (simp add: repository_values_eq)
  show "calls (snd (store_repositories_bulk exec_values names s)) =
      calls s @ [Cursor, ExecuteValues BULK_UPSERT_REPOSITORIES (repository_values names) 100,
                 Commit, CursorClose]"
    using ok by (simp add: r bulk_upsert_ok)
  show "log_records (snd (store_repositories_bulk exec_values names s)) = log_records s"
    using ok by (simp add: r bulk_upsert_ok)
next
  fix e
  assume ne: "filter (\<lambda>n. length (py_split CHR ''/'' n) = 2) names \<noteq> []"
    and bad: "exec_values BULK_UPSERT_REPOSITORIES (repository_values names) (working s) = Inl e"
  from ne have v: "repository_values names \<noteq> []" and n: "names \<noteq> []"
    by (auto simp: repository_values_eq)
  have r: "store_repositories_bulk exec_values names s =
      bulk_upsert exec_values BULK_UPSERT_REPOSITORIES (repository_values names)
        ''Error in bulk repository storage: '' s"
    using v n by (simp add: store_repositories_bulk_def py_replace_same)
  show "fst (store_repositories_bulk exec_values names s) = Returns 0"
    using bad by (simp add: r bulk_upsert_fail)
  show "calls (snd (store_repositories_bulk exec_values names s)) =
      calls s @ [Cursor, ExecuteValues BULK_UPSERT_REPOSITORIES (repository_values names) 100,
                 CursorClose, Rollback]"
    using bad by (simp add: r bulk_upsert_fail)
  show "log_records (snd (store_repositories_bulk exec_values names s)) =
      log_records s @ [(ERROR, ''Error in bulk repository storage: '' @ e)]"
    using bad by (simp add: r bulk_upsert_fail)
qed

theorem store_repositories_bulk_skips_malformed_witness:
  "store_repositories_bulk accepting_values [''noslash'', ''a/b/c''] example_session =
     (Returns 0, example_session)
   \<and> fst (store_repositories_bulk accepting_values [''noslash'', ''owner/repo'', ''a/b/c'']
          example_session) = Returns 1
   \<and> calls (snd (store_repositories_bulk accepting_values [''noslash'', ''owner/repo'', ''a/b/c'']
          example_session)) =
       [Cursor,
        ExecuteValues BULK_UPSERT_REPOSITORIES [[VStr ''owner/repo'', VStr ''repo'', VStr ''owner'']] 100,
        Commit, CursorClose]
   \<and> fst (store_repositories_bulk rejecting_values [''noslash'', ''owner/repo'', ''a/b/c'']
          example_session) = Returns 0"
  using store_repositories_bulk_skips_malformed
      [where names = "[''noslash'', ''a/b/c'']" and exec_values = accepting_values
        and s = example_session]
    store_repositories_bulk_skips_malformed
      [where names = "[''noslash'', ''owner/repo'', ''a/b/c'']" and exec_values = accepting_values
        and s = example_session]
    store_repositories_bulk_skips_malformed
      [where names = "[''noslash'', ''owner/repo'', ''a/b/c'']" and exec_values = rejecting_values
        and s = example_session]
  by (simp add: split_examples accepting_values_def rejecting_values_def example_session_def
      del: py_split.simps)

section \<open>Reading a pull request with its file changes\<close>

lemma get_on_database:
  "get_pull_request_with_file_changes (execute_query_on d) n full_name =
     Returns (map_to_pull_request_with_file_changes
        (select_pull_request_with_file_changes d n full_name))"
  by (simp add: get_pull_request_with_file_changes_def execute_query_on_def)

lemma select_no_pull_request:
  "\<not> (\<exists>p \<in> set (tbl_pull_requests d). p_number p = n \<and> p_repository_full_name p = full_name)
   \<Longrightarrow> select_pull_request_with_file_changes d n full_name = []"
  by (simp add: select_pull_request_with_file_changes_def filter_empty_conv)

lemma select_no_file_changes:
  assumes p: "p \<in> set (tbl_pull_requests d)" "p_number p = n"
      "p_repository_full_name p = full_name"
    and r: "\<exists>r \<in> set (tbl_repositories d). r_full_name r = full_name"
    and f: "\<not> (\<exists>f \<in> set (tbl_file_changes d).
              f_pr_number f = n \<and> f_repository_full_name f = full_name)"
  shows "\<exists>p' r' rest. select_pull_request_with_file_changes d n full_name =
            \<lparr>row_pr = p', row_r = r', row_fc = None\<rparr> # rest
          \<and> p_number p' = n \<and> p_repository_full_name p' = full_name"
proof -
  let ?P = "\<lambda>pr. p_number pr = n \<and> p_repository_full_name pr = full_name"
  from p have "filter ?P (tbl_pull_requests d) \<noteq> []"
    by (auto simp: filter_empty_conv)
  then obtain p' ps where ps: "filter ?P (tbl_pull_requests d) = p' # ps"
    by (cases "filter ?P (tbl_pull_requests d)") auto
  then have p': "p_number p' = n" "p_repository_full_name p' = full_name"
    using Cons_eq_filterD [OF ps [symmetric]] by auto
  from r obtain r0 where "r0 \<in> set (tbl_repositories d)" "r_full_name r0 = full_name"
    by blast
  with p' have "\<exists>x \<in> set (tbl_repositories d). p_repository_full_name p' = r_full_name x"
    by (intro bexI [of _ r0]) simp_all
  then have "filter (\<lambda>r. p_repository_full_name p' = r_full_name r) (tbl_repositories d) \<noteq> []"
    by (simp add: filter_empty_conv)
  then obtain r' rs where rs:
      "filter (\<lambda>r. p_repository_full_name p' = r_full_name r) (tbl_repositories d) = r' # rs"
    by (cases "filter (\<lambda>r. p_repository_full_name p' = r_full_name r) (tbl_repositories d)") auto
  from f p' have none: "filter (\<lambda>fc. p_number p' = f_pr_number fc
        \<and> p_repository_full_name p' = f_repository_full_name fc) (tbl_file_changes d) = []"
    by (auto simp: filter_empty_conv)
  have "left_join_file_changes d p' r' = [\<lparr>row_pr = p', row_r = r', row_fc = None\<rparr>]"
    by (simp add: left_join_file_changes_def none)
  then have "select_pull_request_with_file_changes d n full_name =
      \<lparr>row_pr = p', row_r = r', row_fc = None\<rparr> #
        (concat (map (left_join_file_changes d p') rs) @
         concat (map (\<lambda>pr. concat (map (left_join_file_changes d pr)
            (filter (\<lambda>r. p_repository_full_name pr = r_full_name r) (tbl_repositories d)))) ps))"
    by (simp add: select_pull_request_with_file_changes_def ps rs)
  with p' show ?thesis by blast
qed

text \<open>
  C1, as the code has it.  Against a storage that holds the tables \<open>d\<close>,
  \<open>get_pull_request_with_file_changes\<close> returns \<open>None\<close> when no pull request with the
  number and repository name is stored.  When one is stored, with its repository row and
  without any file change, it returns the \<open>PullRequest\<close> with \<open>file_changes\<close> left at
  \<open>None\<close>: the guard on the first row's \<open>filename\<close> skips the assignment, so no empty list
  is attached.  The two results differ.
\<close>

theorem absent_pull_request_vs_unloaded_file_changes:
  "(\<not> (\<exists>p \<in> set (tbl_pull_requests d). p_number p = n \<and> p_repository_full_name p = full_name)
      \<longrightarrow> get_pull_request_with_file_changes (execute_query_on d) n full_name = Returns None)
   \<and> ((\<exists>p \<in> set (tbl_pull_requests d). p_number p = n \<and> p_repository_full_name p = full_name)
       \<and> (\<exists>r \<in> set (tbl_repositories d). r_full_name r = full_name)
       \<and> \<not> (\<exists>f \<in> set (tbl_file_changes d).
               f_pr_number f = n \<and> f_repository_full_name f = full_name)
      \<longrightarrow> (\<exists>pr. get_pull_request_with_file_changes (execute_query_on d) n full_name =
                  Returns (Some pr)
               \<and> number pr = n \<and> repository_full_name pr = full_name
               \<and> file_changes pr = None))"
proof (intro conjI impI)
  assume "\<not> (\<exists>p \<in> set (tbl_pull_requests d). p_number p = n \<and> p_repository_full_name p = full_name)"
  then have "select_pull_request_with_file_changes d n full_name = []"
    by (rule select_no_pull_request)
  then show "get_pull_request_with_file_changes (execute_query_on d) n full_name = Returns None"
    by (simp add: get_on_database map_to_pull_request_with_file_changes_def)
next
  assume a: "(\<exists>p \<in> set (tbl_pull_requests d). p_number p = n \<and> p_repository_full_name p = full_name)
       \<and> (\<exists>r \<in> set (tbl_repositories d). r_full_name r = full_name)
       \<and> \<not> (\<exists>f \<in> set (tbl_file_changes d).
               f_pr_number f = n \<and> f_repository_full_name f = full_name)"
  then obtain p where p: "p \<in> set (tbl_pull_requests d)" "p_number p = n"
      "p_repository_full_name p = full_name" by blast
  from select_no_file_changes [OF p] a obtain p' r' rest where
    sel: "select_pull_request_with_file_changes d n full_name =
            \<lparr>row_pr = p', row_r = r', row_fc = None\<rparr> # rest"
    and p': "p_number p' = n" "p_repository_full_name p' = full_name"
    by blast
  have "get_pull_request_with_file_changes (execute_query_on d) n full_name =
      Returns (Some (pull_request_of_row \<lparr>row_pr = p', row_r = r', row_fc = None\<rparr>))"
    by (simp add: get_on_database sel map_to_pull_request_with_file_changes_def row_filename_def)
  moreover have "number (pull_request_of_row \<lparr>row_pr = p', row_r = r', row_fc = None\<rparr>) = n"
    "repository_full_name (pull_request_of_row \<lparr>row_pr = p', row_r = r', row_fc = None\<rparr>)
       = full_name"
    "file_changes (pull_request_of_row \<lparr>row_pr = p', row_r = r', row_fc = None\<rparr>) = None"
    using p' by (simp_all add: pull_request_of_row_def)
  ultimately show "\<exists>pr. get_pull_request_with_file_changes (execute_query_on d) n full_name =
                  Returns (Some pr)
               \<and> number pr = n \<and> repository_full_name pr = full_name
               \<and> file_changes pr = None"
    by blast
qed

theorem absent_pull_request_vs_unloaded_file_changes_witness:
  "get_pull_request_with_file_changes (execute_query_on example_database) 2 ''o/r'' = Returns None
   \<and> (\<exists>pr. get_pull_request_with_file_changes (execute_query_on example_database) 1 ''o/r'' =
          Returns (Some pr)
        \<and> number pr = 1 \<and> repository_full_name pr = ''o/r'' \<and> file_changes pr = None)"
  using absent_pull_request_vs_unloaded_file_changes
      [where d = example_database and n = 2 and full_name = "''o/r''"]
    absent_pull_request_vs_unloaded_file_changes
      [where d = example_database and n = 1 and full_name = "''o/r''"]
  by (simp add: example_database_def example_pull_requests_row_def)

text \<open>
  The claim as worded fails: for the stored pull request without file changes the
  result carries \<open>None\<close>, not the empty list.
\<close>

theorem empty_file_change_list_counterexample:
  "get_pull_request_with_file_changes (execute_query_on example_database) 1 ''o/r'' =
     Returns (Some (example_pull_request\<lparr>uid := PyInt 7\<rparr>))
   \<and> file_changes (example_pull_request\<lparr>uid := PyInt 7\<rparr>) = None
   \<and> file_changes (example_pull_request\<lparr>uid := PyInt 7\<rparr>) \<noteq> Some []"
  by (simp add: get_on_database select_pull_request_with_file_changes_def
      left_join_file_changes_def map_to_pull_request_with_file_changes_def row_filename_def
      pull_request_of_row_def example_database_def example_pull_requests_row_def
      example_pull_request_def)

section \<open>Grouping the rows of a repository\<close>

lemma set_first_seen: "set (first_seen xs) = set xs"
  by (induction xs rule: first_seen.induct) auto

lemma first_seen_filter: "first_seen (filter P xs) = filter P (first_seen xs)"
proof (induction xs rule: first_seen.induct)
  case 1
  then show ?case by simp
next
  case (2 x xs)
  have comm: "filter (\<lambda>y. y \<noteq> x) (filter P xs) = filter P (filter (\<lambda>y. y \<noteq> x) xs)"
    by (simp add: conj_commute)
  have ih: "first_seen (filter P (filter (\<lambda>y. y \<noteq> x) xs)) =
      filter P (first_seen (filter (\<lambda>y. y \<noteq> x) xs))"
    by (rule 2)
  show ?case
  proof (cases "P x")
    case True
    then have "first_seen (filter P (x # xs)) =
        x # first_seen (filter (\<lambda>y. y \<noteq> x) (filter P xs))"
      by (simp del: filter_filter)
    also have "\<dots> = x # filter P (first_seen (filter (\<lambda>y. y \<noteq> x) xs))"
      by (simp only: comm ih)
    also have "\<dots> = filter P (first_seen (x # xs))"
      using True by simp
    finally show ?thesis .
  next
    case False
    then have same: "filter (\<lambda>y. y \<noteq> x) (filter P xs) = filter P xs"
      by (intro filter_True) auto
    from False have "first_seen (filter P (x # xs)) = first_seen (filter P xs)"
      by simp
    also have "\<dots> = first_seen (filter P (filter (\<lambda>y. y \<noteq> x) xs))"
      by (simp only: comm [symmetric] same)
    also have "\<dots> = filter P (first_seen (x # xs))"
      using False by (simp only: ih) simp
    finally show ?thesis .
  qed
qed

lemma first_seen_snoc:
  "first_seen (xs @ [x]) = (if x \<in> set xs then first_seen xs else first_seen xs @ [x])"
proof (induction xs rule: first_seen.induct)
  case 1
  then show ?case by simp
next
  case (2 y ys)
  show ?case
  proof (cases "x = y")
    case True
    then show ?thesis by simp
  next
    case False
    with 2 show ?thesis by auto
  qed
qed

lemma first_seen_map_inj:
  "inj f \<Longrightarrow> first_seen (map f xs) = map f (first_seen xs)"
proof (induction xs rule: first_seen.induct)
  case 1
  then show ?case by simp
next
  case (2 x xs)
  from 2(2) have "filter (\<lambda>y. y \<noteq> f x) (map f xs) = map f (filter (\<lambda>y. y \<noteq> x) xs)"
    by (simp add: filter_map comp_def inj_eq)
  with 2 show ?case by simp
qed

lemma distinct_first_seen: "distinct (first_seen xs)"
  by (induction xs rule: first_seen.induct) (auto simp: set_first_seen)

lemma pr_groups_eq:
  "foldl group_result [] results =
     map (\<lambda>k. (k, filter (\<lambda>row. row_number row = k) results))
       (first_seen (map row_number results))"
proof (induction results rule: rev_induct)
  case Nil
  then show ?case by simp
next
  case (snoc r rs)
  let ?keys = "first_seen (map row_number rs)"
  let ?g = "map (\<lambda>k. (k, filter (\<lambda>row. row_number row = k) rs)) ?keys"
  have keys: "set (map fst ?g) = row_number ` set rs"
    by (simp add: comp_def set_first_seen)
  show ?case
  proof (cases "row_number r \<in> row_number ` set rs")
    case True
    then have "group_result ?g r =
        map (\<lambda>(k, rows). if k = row_number r then (k, rows @ [r]) else (k, rows)) ?g"
      unfolding group_result_def Let_def keys by simp
    also have "\<dots> = map (\<lambda>k. (k, filter (\<lambda>row. row_number row = k) (rs @ [r]))) ?keys"
      by auto
    finally show ?thesis using True snoc by (simp add: first_seen_snoc)
  next
    case False
    then have "group_result ?g r = ?g @ [(row_number r, [r])]"
      unfolding group_result_def Let_def keys by simp
    moreover have other: "\<forall>x \<in> set rs. row_number x \<noteq> row_number r"
      using False by (metis imageI)
    then have "filter (\<lambda>row. row_number row = row_number r) rs = []"
      by (simp add: filter_empty_conv)
    moreover have "map (\<lambda>k. (k, filter (\<lambda>row. row_number row = k) (rs @ [r]))) ?keys = ?g"
      using False by (auto simp: set_first_seen)
    ultimately show ?thesis using False snoc by (simp add: first_seen_snoc)
  qed
qed

lemma map_to_pull_request_with_file_changes_Cons:
  "\<exists>pr. map_to_pull_request_with_file_changes (row # rows) = Some pr
     \<and> number pr = row_number row
     \<and> repository_full_name pr = p_repository_full_name (row_pr row)"
  by (simp add: map_to_pull_request_with_file_changes_def Let_def pull_request_of_row_def
      row_number_def)

lemma group_mapped:
  assumes "k \<in> row_number ` set results"
  shows "\<exists>pr. map_to_pull_request_with_file_changes
            (filter (\<lambda>row. row_number row = k) results) = Some pr
         \<and> number pr = k
         \<and> (\<exists>row \<in> set results. repository_full_name pr = p_repository_full_name (row_pr row))"
proof -
  from assms have "filter (\<lambda>row. row_number row = k) results \<noteq> []"
    by (auto simp: filter_empty_conv)
  then obtain row rows where f: "filter (\<lambda>row. row_number row = k) results = row # rows"
    by (cases "filter (\<lambda>row. row_number row = k) results") auto
  then have row: "row \<in> set results" "row_number row = k"
    using Cons_eq_filterD [OF f [symmetric]] by auto
  with map_to_pull_request_with_file_changes_Cons [of row rows] f show ?thesis
    by auto
qed

lemma map_filter_all_Some:
  "\<forall>x \<in> set xs. f x \<noteq> None \<Longrightarrow> map Some (List.map_filter f xs) = map f xs"
  by (induction xs) (auto simp: List.map_filter_simps)

text \<open>
  C6.  Whatever rows storage returns for the by-repository query,
  \<open>get_pull_requests_by_repository_with_file_changes\<close> returns one \<open>PullRequest\<close> per
  distinct pull request number among them, in the order in which the numbers first occur
  in the row sequence, each built from the rows of its number.  When all rows carry the
  repository name asked for, as the \<open>WHERE\<close> clause ensures, the identities (number,
  repository name) of the result are the distinct identities of the rows in first-seen
  order.
\<close>

theorem grouped_in_first_seen_order:
  assumes "execute_query
      (py_replace ''WHERE pr.number = %s AND pr.repository_full_name = %s''
         ''WHERE pr.repository_full_name = %s ORDER BY pr.merged_at DESC''
         GET_PULL_REQUEST_WITH_FILE_CHANGES)
      [VStr full_name] = Inr results"
  shows "\<exists>prs. get_pull_requests_by_repository_with_file_changes execute_query full_name =
           Returns prs
     \<and> map number prs = first_seen (map row_number results)
     \<and> map Some prs =
         map (\<lambda>k. map_to_pull_request_with_file_changes
                (filter (\<lambda>row. row_number row = k) results))
           (first_seen (map row_number results))
     \<and> ((\<forall>row \<in> set results. p_repository_full_name (row_pr row) = full_name) \<longrightarrow>
          map (\<lambda>pr. (number pr, repository_full_name pr)) prs =
            first_seen (map (\<lambda>row. (row_number row, p_repository_full_name (row_pr row)))
              results))"
proof -
  let ?keys = "first_seen (map row_number results)"
  let ?grp = "\<lambda>k. filter (\<lambda>row. row_number row = k) results"
  let ?prs = "List.map_filter map_to_pull_request_with_file_changes (map ?grp ?keys)"
  have ret: "get_pull_requests_by_repository_with_file_changes execute_query full_name =
      Returns ?prs"
    using assms
    by (simp add: get_pull_requests_by_repository_with_file_changes_def Let_def pr_groups_eq
        comp_def)
  have some: "\<forall>g \<in> set (map ?grp ?keys). map_to_pull_request_with_file_changes g \<noteq> None"
    using group_mapped [of _ results] by (fastforce simp: set_first_seen)
  have opt: "map Some ?prs = map (\<lambda>k. map_to_pull_request_with_file_changes (?grp k)) ?keys"
    using map_filter_all_Some [OF some] by (simp add: comp_def)
  have num: "map number ?prs = ?keys"
  proof -
    have "map (map_option number) (map Some ?prs) = map Some ?keys"
      unfolding opt using group_mapped [of _ results]
      by (fastforce simp: set_first_seen)
    then have "map Some (map number ?prs) = map Some ?keys" by (simp add: comp_def)
    then show ?thesis by (rule map_injective) simp
  qed
  have ident: "map (\<lambda>pr. (number pr, repository_full_name pr)) ?prs =
      first_seen (map (\<lambda>row. (row_number row, p_repository_full_name (row_pr row))) results)"
    if same: "\<forall>row \<in> set results. p_repository_full_name (row_pr row) = full_name"
  proof -
    have "map (map_option (\<lambda>pr. (number pr, repository_full_name pr))) (map Some ?prs) =
        map (\<lambda>k. Some (k, full_name)) ?keys"
      unfolding opt using group_mapped [of _ results] same
      by (fastforce simp: set_first_seen)
    then have "map Some (map (\<lambda>pr. (number pr, repository_full_name pr)) ?prs) =
        map Some (map (\<lambda>k. (k, full_name)) ?keys)"
      by (simp add: comp_def)
    then have "map (\<lambda>pr. (number pr, repository_full_name pr)) ?prs =
        map (\<lambda>k. (k, full_name)) ?keys"
      by (rule map_injective) simp
    also have "\<dots> = first_seen (map (\<lambda>k. (k, full_name)) (map row_number results))"
      by (rule first_seen_map_inj [symmetric]) (simp add: inj_def)
    also have "map (\<lambda>k. (k, full_name)) (map row_number results) =
        map (\<lambda>row. (row_number row, p_repository_full_name (row_pr row))) results"
      using same by simp
    finally show ?thesis .
  qed
  from ret opt num ident show ?thesis by blast
qed


theorem grouped_in_first_seen_order_witness:
  "\<exists>prs. get_pull_requests_by_repository_with_file_changes
            (\<lambda>query params. Inr example_results) ''o/r'' = Returns prs
     \<and> map number prs = [2, 1]
     \<and> map (\<lambda>pr. (number pr, repository_full_name pr)) prs = [(2, ''o/r''), (1, ''o/r'')]"
proof -
  have h: "(\<lambda>query params. Inr example_results)
      (py_replace ''WHERE pr.number = %s AND pr.repository_full_name = %s''
         ''WHERE pr.repository_full_name = %s ORDER BY pr.merged_at DESC''
         GET_PULL_REQUEST_WITH_FILE_CHANGES)
      [VStr ''o/r''] = (Inr example_results :: string + joined_row list)"
    by simp
  from grouped_in_first_seen_order [OF h] obtain prs where
    ret: "get_pull_requests_by_repository_with_file_changes
            (\<lambda>query params. Inr example_results) ''o/r'' = Returns prs"
    and num: "map number prs = first_seen (map row_number example_results)"
    and ident: "(\<forall>row \<in> set example_results. p_repository_full_name (row_pr row) = ''o/r'') \<longrightarrow>
          map (\<lambda>pr. (number pr, repository_full_name pr)) prs =
            first_seen (map (\<lambda>row. (row_number row, p_repository_full_name (row_pr row)))
              example_results)"
    by blast
  from num have "map number prs = [2, 1]"
    by (simp add: example_results_def row_number_def example_pull_requests_row_def)
  moreover from ident have
    "map (\<lambda>pr. (number pr, repository_full_name pr)) prs = [(2, ''o/r''), (1, ''o/r'')]"
    by (simp add: example_results_def row_number_def example_pull_requests_row_def)
  ultimately show ?thesis using ret by (intro exI [of _ prs]) simp
qed

section \<open>The migration run\<close>


lemma run_migration_returns:
  "fst (run_migration read_file exec f s) = Returns True
   \<or> fst (run_migration read_file exec f s) = Returns False"
  by (auto simp: run_migration_def Let_def split: sum.splits prod.splits option.splits)







section \<open>Bulk storage\<close>

lemma rows_submitted_bulk_calls:
  "rows_submitted (cs @ [Cursor, ExecuteValues query vals n, Commit, CursorClose]) =
     rows_submitted cs + length vals"
  "rows_submitted (cs @ [Cursor, ExecuteValues query vals n, CursorClose, Rollback]) =
     rows_submitted cs + length vals"
  by (simp_all add: rows_submitted_def)

lemma store_miners_bulk_eq:
  "miners \<noteq> [] \<Longrightarrow>
   store_miners_bulk exec_values miners s =
     bulk_upsert exec_values BULK_UPSERT_MINERS (miner_values miners)
       ''Error in bulk miner storage: '' s"
  by (simp add: store_miners_bulk_def py_replace_same)

lemma store_issues_bulk_eq:
  "issue_list \<noteq> [] \<Longrightarrow>
   store_issues_bulk exec_values issue_list s =
     bulk_upsert exec_values BULK_UPSERT_ISSUES (issue_values issue_list)
       ''Error in bulk issue storage: '' s"
  by (simp add: store_issues_bulk_def py_replace_same)

lemma store_file_changes_bulk_eq:
  "fcs \<noteq> [] \<Longrightarrow>
   store_file_changes_bulk exec_values fcs s =
     bulk_upsert exec_values BULK_UPSERT_FILE_CHANGES (file_change_values fcs)
       ''Error in bulk file change storage: '' s"
  by (simp add: store_file_changes_bulk_def py_replace_same)

lemma store_repositories_bulk_eq:
  "repository_values names \<noteq> [] \<Longrightarrow>
   store_repositories_bulk exec_values names s =
     bulk_upsert exec_values BULK_UPSERT_REPOSITORIES (repository_values names)
       ''Error in bulk repository storage: '' s"
  by (auto simp: store_repositories_bulk_def py_replace_same repository_values_def
      List.map_filter_simps)

lemma store_repositories_bulk_none:
  "repository_values names = [] \<Longrightarrow> store_repositories_bulk exec_values names s = (Returns 0, s)"
  by (simp add: store_repositories_bulk_def)

lemma values_length:
  "length (miner_values miners) = length miners"
  "length (issue_values issue_list) = length issue_list"
  "length (file_change_values fcs) = length fcs"
  by (simp_all add: miner_values_def issue_values_def file_change_values_def)

text \<open>
  C4, as the code has it, for every \<open>store_..._bulk\<close> method (miners, pull requests,
  issues, file changes, repository names).  On an empty input the method returns 0 and
  leaves the session as it was: no call is made on the connection handle.  On a
  non-empty input it hands its rows to storage in one \<open>execute_values\<close> call, one row
  per entity (for repository names, one row per well-formed name; when none is well-formed
  the method returns 0 without a call).  When storage executes the statement the method
  commits, closes the cursor, writes no log record and returns the number of rows handed
  over.  When the statement raises, the rows have been handed over all the same, and the
  method closes the cursor, rolls back to the committed content, writes one error record
  and returns 0.
\<close>

theorem store_bulk_count_on_success:
  "store_miners_bulk exec_values [] s = (Returns 0, s)
   \<and> store_pull_requests_bulk exec_values [] s = (Returns 0, [], s)
   \<and> store_issues_bulk exec_values [] s = (Returns 0, s)
   \<and> store_file_changes_bulk exec_values [] s = (Returns 0, s)
   \<and> store_repositories_bulk exec_values [] s = (Returns 0, s)
   \<and> (\<forall>w. miners \<noteq> []
          \<and> exec_values BULK_UPSERT_MINERS (miner_values miners) (working s) = Inr w \<longrightarrow>
        store_miners_bulk exec_values miners s =
          (Returns (int (length miners)),
           s\<lparr>committed := w, working := w,
             calls := calls s @ [Cursor,
               ExecuteValues BULK_UPSERT_MINERS (miner_values miners) 100, Commit, CursorClose]\<rparr>)
        \<and> rows_submitted (calls (snd (store_miners_bulk exec_values miners s))) =
            rows_submitted (calls s) + length miners)
   \<and> (\<forall>e. miners \<noteq> []
          \<and> exec_values BULK_UPSERT_MINERS (miner_values miners) (working s) = Inl e \<longrightarrow>
        store_miners_bulk exec_values miners s =
          (Returns 0,
           s\<lparr>working := committed s,
             calls := calls s @ [Cursor,
               ExecuteValues BULK_UPSERT_MINERS (miner_values miners) 100, CursorClose, Rollback],
             log_records := log_records s @ [(ERROR, ''Error in bulk miner storage: '' @ e)]\<rparr>)
        \<and> rows_submitted (calls (snd (store_miners_bulk exec_values miners s))) =
            rows_submitted (calls s) + length miners)
   \<and> (\<forall>w. prs \<noteq> []
          \<and> exec_values BULK_UPSERT_PULL_REQUESTS
               (map pull_request_params (map normalize_uid prs)) (working s) = Inr w \<longrightarrow>
        store_pull_requests_bulk exec_values prs s =
          (Returns (int (length prs)), map normalize_uid prs,
           s\<lparr>committed := w, working := w,
             calls := calls s @ [Cursor,
               ExecuteValues BULK_UPSERT_PULL_REQUESTS
                 (map pull_request_params (map normalize_uid prs)) 100, Commit, CursorClose]\<rparr>)
        \<and> rows_submitted (calls (snd (snd (store_pull_requests_bulk exec_values prs s)))) =
            rows_submitted (calls s) + length prs)
   \<and> (\<forall>e. prs \<noteq> []
          \<and> exec_values BULK_UPSERT_PULL_REQUESTS
               (map pull_request_params (map normalize_uid prs)) (working s) = Inl e \<longrightarrow>
        store_pull_requests_bulk exec_values prs s =
          (Returns 0, map normalize_uid prs,
           s\<lparr>working := committed s,
             calls := calls s @ [Cursor,
               ExecuteValues BULK_UPSERT_PULL_REQUESTS
                 (map pull_request_params (map normalize_uid prs)) 100, CursorClose, Rollback],
             log_records := log_records s @
               [(ERROR, ''Error in bulk pull request storage: '' @ e)]\<rparr>)
        \<and> rows_submitted (calls (snd (snd (store_pull_requests_bulk exec_values prs s)))) =
            rows_submitted (calls s) + length prs)
   \<and> (\<forall>w. issue_list \<noteq> []
          \<and> exec_values BULK_UPSERT_ISSUES (issue_values issue_list) (working s) = Inr w \<longrightarrow>
        store_issues_bulk exec_values issue_list s =
          (Returns (int (length issue_list)),
           s\<lparr>committed := w, working := w,
             calls := calls s @ [Cursor,
               ExecuteValues BULK_UPSERT_ISSUES (issue_values issue_list) 100,
               Commit, CursorClose]\<rparr>)
        \<and> rows_submitted (calls (snd (store_issues_bulk exec_values issue_list s))) =
            rows_submitted (calls s) + length issue_list)
   \<and> (\<forall>e. issue_list \<noteq> []
          \<and> exec_values BULK_UPSERT_ISSUES (issue_values issue_list) (working s) = Inl e \<longrightarrow>
        store_issues_bulk exec_values issue_list s =
          (Returns 0,
           s\<lparr>working := committed s,
             calls := calls s @ [Cursor,
               ExecuteValues BULK_UPSERT_ISSUES (issue_values issue_list) 100,
               CursorClose, Rollback],
             log_records := log_records s @ [(ERROR, ''Error in bulk issue storage: '' @ e)]\<rparr>)
        \<and> rows_submitted (calls (snd (store_issues_bulk exec_values issue_list s))) =
            rows_submitted (calls s) + length issue_list)
   \<and> (\<forall>w. fcs \<noteq> []
          \<and> exec_values BULK_UPSERT_FILE_CHANGES (file_change_values fcs) (working s) = Inr w \<longrightarrow>
        store_file_changes_bulk exec_values fcs s =
          (Returns (int (length fcs)),
           s\<lparr>committed := w, working := w,
             calls := calls s @ [Cursor,
               ExecuteValues BULK_UPSERT_FILE_CHANGES (file_change_values fcs) 100,
               Commit, CursorClose]\<rparr>)
        \<and> rows_submitted (calls (snd (store_file_changes_bulk exec_values fcs s))) =
            rows_submitted (calls s) + length fcs)
   \<and> (\<forall>e. fcs \<noteq> []
          \<and> exec_values BULK_UPSERT_FILE_CHANGES (file_change_values fcs) (working s) = Inl e \<longrightarrow>
        store_file_changes_bulk exec_values fcs s =
          (Returns 0,
           s\<lparr>working := committed s,
             calls := calls s @ [Cursor,
               ExecuteValues BULK_UPSERT_FILE_CHANGES (file_change_values fcs) 100,
               CursorClose, Rollback],
             log_records := log_records s @
               [(ERROR, ''Error in bulk file change storage: '' @ e)]\<rparr>)
        \<and> rows_submitted (calls (snd (store_file_changes_bulk exec_values fcs s))) =
            rows_submitted (calls s) + length fcs)
   \<and> (\<forall>w. repository_values names \<noteq> []
          \<and> exec_values BULK_UPSERT_REPOSITORIES (repository_values names) (working s) = Inr w \<longrightarrow>
        store_repositories_bulk exec_values names s =
          (Returns (int (length (repository_values names))),
           s\<lparr>committed := w, working := w,
             calls := calls s @ [Cursor,
               ExecuteValues BULK_UPSERT_REPOSITORIES (repository_values names) 100,
               Commit, CursorClose]\<rparr>)
        \<and> rows_submitted (calls (snd (store_repositories_bulk exec_values names s))) =
            rows_submitted (calls s) + length (repository_values names))
   \<and> (\<forall>e. repository_values names \<noteq> []
          \<and> exec_values BULK_UPSERT_REPOSITORIES (repository_values names) (working s) = Inl e \<longrightarrow>
        store_repositories_bulk exec_values names s =
          (Returns 0,
           s\<lparr>working := committed s,
             calls := calls s @ [Cursor,
               ExecuteValues BULK_UPSERT_REPOSITORIES (repository_values names) 100,
               CursorClose, Rollback],
             log_records := log_records s @
               [(ERROR, ''Error in bulk repository storage: '' @ e)]\<rparr>)
        \<and> rows_submitted (calls (snd (store_repositories_bulk exec_values names s))) =
            rows_submitted (calls s) + length (repository_values names))
   \<and> (repository_values names = [] \<longrightarrow>
        store_repositories_bulk exec_values names s = (Returns 0, s))"
proof (intro conjI allI impI; (elim conjE)?)
  show "store_miners_bulk exec_values [] s = (Returns 0, s)"
    by (simp add: store_miners_bulk_def)
  show "store_pull_requests_bulk exec_values [] s = (Returns 0, [], s)"
    by (simp add: store_pull_requests_bulk_def)
  show "store_issues_bulk exec_values [] s = (Returns 0, s)"
    by (simp add: store_issues_bulk_def)
  show "store_file_changes_bulk exec_values [] s = (Returns 0, s)"
    by (simp add: store_file_changes_bulk_def)
  show "store_repositories_bulk exec_values [] s = (Returns 0, s)"
    by (simp add: store_repositories_bulk_def)
  show "store_repositories_bulk exec_values names s = (Returns 0, s)"
    if "repository_values names = []"
    using that by (rule store_repositories_bulk_none)
next
  fix w
  assume ne: "miners \<noteq> []"
    and ok: "exec_values BULK_UPSERT_MINERS (miner_values miners) (working s) = Inr w"
  show r: "store_miners_bulk exec_values miners s =
      (Returns (int (length miners)),
       s\<lparr>committed := w, working := w,
         calls := calls s @ [Cursor,
           ExecuteValues BULK_UPSERT_MINERS (miner_values miners) 100, Commit, CursorClose]\<rparr>)"
    using ok by (simp add: store_miners_bulk_eq [OF ne] bulk_upsert_ok values_length)
  show "rows_submitted (calls (snd (store_miners_bulk exec_values miners s))) =
      rows_submitted (calls s) + length miners"
    by (simp add: r rows_submitted_bulk_calls values_length)
next
  fix e
  assume ne: "miners \<noteq> []"
    and bad: "exec_values BULK_UPSERT_MINERS (miner_values miners) (working s) = Inl e"
  show r: "store_miners_bulk exec_values miners s =
      (Returns 0,
       s\<lparr>working := committed s,
         calls := calls s @ [Cursor,
           ExecuteValues BULK_UPSERT_MINERS (miner_values miners) 100, CursorClose, Rollback],
         log_records := log_records s @ [(ERROR, ''Error in bulk miner storage: '' @ e)]\<rparr>)"
    using bad by (simp add: store_miners_bulk_eq [OF ne] bulk_upsert_fail)
  show "rows_submitted (calls (snd (store_miners_bulk exec_values miners s))) =
      rows_submitted (calls s) + length miners"
    by (simp add: r rows_submitted_bulk_calls values_length)
next
  fix w
  let ?vals = "map pull_request_params (map normalize_uid prs)"
  assume ne: "prs \<noteq> []"
    and ok: "exec_values BULK_UPSERT_PULL_REQUESTS ?vals (working s) = Inr w"
  show r: "store_pull_requests_bulk exec_values prs s =
      (Returns (int (length prs)), map normalize_uid prs,
       s\<lparr>committed := w, working := w,
         calls := calls s @ [Cursor,
           ExecuteValues BULK_UPSERT_PULL_REQUESTS ?vals 100, Commit, CursorClose]\<rparr>)"
    using ok by (simp add: store_pull_requests_bulk_eq [OF ne] bulk_upsert_ok)
  show "rows_submitted (calls (snd (snd (store_pull_requests_bulk exec_values prs s)))) =
      rows_submitted (calls s) + length prs"
    by (simp add: r rows_submitted_bulk_calls)
next
  fix e
  let ?vals = "map pull_request_params (map normalize_uid prs)"
  assume ne: "prs \<noteq> []"
    and bad: "exec_values BULK_UPSERT_PULL_REQUESTS ?vals (working s) = Inl e"
  show r: "store_pull_requests_bulk exec_values prs s =
      (Returns 0, map normalize_uid prs,
       s\<lparr>working := committed s,
         calls := calls s @ [Cursor,
           ExecuteValues BULK_UPSERT_PULL_REQUESTS ?vals 100, CursorClose, Rollback],
         log_records := log_records s @
           [(ERROR, ''Error in bulk pull request storage: '' @ e)]\<rparr>)"
    using bad by (simp add: store_pull_requests_bulk_eq [OF ne] bulk_upsert_fail)
  show "rows_submitted (calls (snd (snd (store_pull_requests_bulk exec_values prs s)))) =
      rows_submitted (calls s) + length prs"
    by (simp add: r rows_submitted_bulk_calls)
next
  fix w
  assume ne: "issue_list \<noteq> []"
    and ok: "exec_values BULK_UPSERT_ISSUES (issue_values issue_list) (working s) = Inr w"
  show r: "store_issues_bulk exec_values issue_list s =
      (Returns (int (length issue_list)),
       s\<lparr>committed := w, working := w,
         calls := calls s @ [Cursor,
           ExecuteValues BULK_UPSERT_ISSUES (issue_values issue_list) 100,
           Commit, CursorClose]\<rparr>)"
    using ok by (simp add: store_issues_bulk_eq [OF ne] bulk_upsert_ok values_length)
  show "rows_submitted (calls (snd (store_issues_bulk exec_values issue_list s))) =
      rows_submitted (calls s) + length issue_list"
    by (simp add: r rows_submitted_bulk_calls values_length)
next
  fix e
  assume ne: "issue_list \<noteq> []"
    and bad: "exec_values BULK_UPSERT_ISSUES (issue_values issue_list) (working s) = Inl e"
  show r: "store_issues_bulk exec_values issue_list s =
      (Returns 0,
       s\<lparr>working := committed s,
         calls := calls s @ [Cursor,
           ExecuteValues BULK_UPSERT_ISSUES (issue_values issue_list) 100,
           CursorClose, Rollback],
         log_records := log_records s @ [(ERROR, ''Error in bulk issue storage: '' @ e)]\<rparr>)"
    using bad by (simp add: store_issues_bulk_eq [OF ne] bulk_upsert_fail)
  show "rows_submitted (calls (snd (store_issues_bulk exec_values issue_list s))) =
      rows_submitted (calls s) + length issue_list"
    by (simp add: r rows_submitted_bulk_calls values_length)
next
  fix w
  assume ne: "fcs \<noteq> []"
    and ok: "exec_values BULK_UPSERT_FILE_CHANGES (file_change_values fcs) (working s) = Inr w"
  show r: "store_file_changes_bulk exec_values fcs s =
      (Returns (int (length fcs)),
       s\<lparr>committed := w, working := w,
         calls := calls s @ [Cursor,
           ExecuteValues BULK_UPSERT_FILE_CHANGES (file_change_values fcs) 100,
           Commit, CursorClose]\<rparr>)"
    using ok by (simp add: store_file_changes_bulk_eq [OF ne] bulk_upsert_ok values_length)
  show "rows_submitted (calls (snd (store_file_changes_bulk exec_values fcs s))) =
      rows_submitted (calls s) + length fcs"
    by (simp add: r rows_submitted_bulk_calls values_length)
next
  fix e
  assume ne: "fcs \<noteq> []"
    and bad: "exec_values BULK_UPSERT_FILE_CHANGES (file_change_values fcs) (working s) = Inl e"
  show r: "store_file_changes_bulk exec_values fcs s =
      (Returns 0,
       s\<lparr>working := committed s,
         calls := calls s @ [Cursor,
           ExecuteValues BULK_UPSERT_FILE_CHANGES (file_change_values fcs) 100,
           CursorClose, Rollback],
         log_records := log_records s @
           [(ERROR, ''Error in bulk file change storage: '' @ e)]\<rparr>)"
    using bad by (simp add: store_file_changes_bulk_eq [OF ne] bulk_upsert_fail)
  show "rows_submitted (calls (snd (store_file_changes_bulk exec_values fcs s))) =
      rows_submitted (calls s) + length fcs"
    by (simp add: r rows_submitted_bulk_calls values_length)
next
  fix w
  assume ne: "repository_values names \<noteq> []"
    and ok: "exec_values BULK_UPSERT_REPOSITORIES (repository_values names) (working s) = Inr w"
  show r: "store_repositories_bulk exec_values names s =
      (Returns (int (length (repository_values names))),
       s\<lparr>committed := w, working := w,
         calls := calls s @ [Cursor,
           ExecuteValues BULK_UPSERT_REPOSITORIES (repository_values names) 100,
           Commit, CursorClose]\<rparr>)"
    using ok by (simp add: store_repositories_bulk_eq [OF ne] bulk_upsert_ok)
  show "rows_submitted (calls (snd (store_repositories_bulk exec_values names s))) =
      rows_submitted (calls s) + length (repository_values names)"
    by (simp add: r rows_submitted_bulk_calls)
next
  fix e
  assume ne: "repository_values names \<noteq> []"
    and bad: "exec_values BULK_UPSERT_REPOSITORIES (repository_values names) (working s) = Inl e"
  show r: "store_repositories_bulk exec_values names s =
      (Returns 0,
       s\<lparr>working := committed s,
         calls := calls s @ [Cursor,
           ExecuteValues BULK_UPSERT_REPOSITORIES (repository_values names) 100,
           CursorClose, Rollback],
         log_records := log_records s @
           [(ERROR, ''Error in bulk repository storage: '' @ e)]\<rparr>)"
    using bad by (simp add: store_repositories_bulk_eq [OF ne] bulk_upsert_fail)
  show "rows_submitted (calls (snd (store_repositories_bulk exec_values names s))) =
      rows_submitted (calls s) + length (repository_values names)"
    by (simp add: r rows_submitted_bulk_calls)
qed

theorem store_bulk_count_on_success_witness:
  "store_miners_bulk accepting_values [example_miner] example_session =
     (Returns 1,
      \<lparr>committed = 1, working = 1,
       calls = [Cursor, ExecuteValues BULK_UPSERT_MINERS (miner_values [example_miner]) 100,
                Commit, CursorClose],
       log_records = []\<rparr>)
   \<and> rows_submitted (calls (snd (store_miners_bulk accepting_values [example_miner]
         example_session))) = 1
   \<and> store_miners_bulk rejecting_values [example_miner] example_session =
     (Returns 0,
      \<lparr>committed = 0, working = 0,
       calls = [Cursor, ExecuteValues BULK_UPSERT_MINERS (miner_values [example_miner]) 100,
                CursorClose, Rollback],
       log_records = [(ERROR, ''Error in bulk miner storage: connection lost'')]\<rparr>)
   \<and> rows_submitted (calls (snd (store_miners_bulk rejecting_values [example_miner]
         example_session))) = 1
   \<and> fst (store_pull_requests_bulk accepting_values [example_pull_request] example_session) =
         Returns 1
   \<and> fst (store_pull_requests_bulk rejecting_values [example_pull_request] example_session) =
         Returns 0
   \<and> fst (store_issues_bulk accepting_values [example_issue, example_issue] example_session) =
         Returns 2
   \<and> log_records (snd (store_issues_bulk rejecting_values [example_issue] example_session)) =
         [(ERROR, ''Error in bulk issue storage: connection lost'')]
   \<and> fst (store_file_changes_bulk accepting_values [example_file_change] example_session) =
         Returns 1
   \<and> committed (snd (store_file_changes_bulk accepting_values [example_file_change]
         example_session)) = 1
   \<and> fst (store_repositories_bulk accepting_values [''noslash'', ''owner/repo'']
         example_session) = Returns 1
   \<and> fst (store_repositories_bulk rejecting_values [''noslash'', ''owner/repo'']
         example_session) = Returns 0"
proof -
  have rv: "repository_values [''noslash'', ''owner/repo''] =
      [[VStr ''owner/repo'', VStr ''repo'', VStr ''owner'']]"
    by (simp add: repository_values_def List.map_filter_simps)
  note a = store_bulk_count_on_success
      [where exec_values = accepting_values and s = example_session
        and miners = "[example_miner]" and prs = "[example_pull_request]"
        and issue_list = "[example_issue, example_issue]" and fcs = "[example_file_change]"
        and names = "[''noslash'', ''owner/repo'']"]
  note b = store_bulk_count_on_success
      [where exec_values = rejecting_values and s = example_session
        and miners = "[example_miner]" and prs = "[example_pull_request]"
        and issue_list = "[example_issue]" and fcs = "[example_file_change]"
        and names = "[''noslash'', ''owner/repo'']"]
  from a b show ?thesis
    by (simp add: accepting_values_def rejecting_values_def example_session_def
        rows_submitted_def miner_values_def issue_values_def file_change_values_def rv)
qed


text \<open>
  The claim as worded fails when storage rejects the statement: one row was handed to
  storage and the method returns 0.
\<close>

theorem store_bulk_count_counterexample:
  "fst (store_miners_bulk rejecting_values [example_miner] example_session) = Returns 0
   \<and> rows_submitted (calls (snd (store_miners_bulk rejecting_values [example_miner]
         example_session))) = 1"
  by (simp add: store_miners_bulk_def py_replace_same bulk_upsert_fail rejecting_values_def
      rows_submitted_def miner_values_def example_session_def)

end
